theory Spec2Isabelle
  imports Complex_Main
begin

section \<open>Python values used by the modules\<close>

text \<open>
  The modules compute with Python floats and unbounded integers. Floats are modelled
  as real numbers (rounding of binary floating point is not represented); \<open>int(x)\<close>
  truncates towards zero and \<open>round(x, 1)\<close> rounds to one decimal, ties to even.
  Floats that come from text typed by the user are modelled with their special values.
\<close>

definition py_int :: "real \<Rightarrow> int" where
  "py_int x = (if 0 \<le> x then \<lfloor>x\<rfloor> else \<lceil>x\<rceil>)"

definition round_half_even :: "real \<Rightarrow> int" where
  "round_half_even x =
     (let f = \<lfloor>x\<rfloor>; d = x - of_int f
      in if d < 1 / 2 then f
         else if 1 / 2 < d then f + 1
         else if even f then f else f + 1)"

definition py_round1 :: "real \<Rightarrow> real" where
  "py_round1 x = of_int (round_half_even (x * 10)) / 10"

datatype error = StorageError | IntegrityError | OverflowError | ValueError

subsection \<open>Floats read from text\<close>

text \<open>
  \<open>float(text)\<close> accepts, besides decimal numbers, the texts \<open>nan\<close> and \<open>inf\<close>.
  The quantities of the parts dialog come from such text and go to the \<open>REAL\<close> columns
  of the inventory, which store these values too, so there a float is a real number,
  an infinity or not-a-number. Comparisons with not-a-number are all false and
  arithmetic with it gives not-a-number, as do \<open>inf - inf\<close> and \<open>0 * inf\<close>.
\<close>

datatype pyfloat = Number real | PosInf | NegInf | NaN

fun f_le :: "pyfloat \<Rightarrow> pyfloat \<Rightarrow> bool" where
  "f_le (Number a) (Number b) = (a \<le> b)"
| "f_le NaN _ = False"
| "f_le _ NaN = False"
| "f_le NegInf _ = True"
| "f_le _ PosInf = True"
| "f_le _ _ = False"

fun f_less :: "pyfloat \<Rightarrow> pyfloat \<Rightarrow> bool" where
  "f_less (Number a) (Number b) = (a < b)"
| "f_less NaN _ = False"
| "f_less _ NaN = False"
| "f_less PosInf _ = False"
| "f_less _ NegInf = False"
| "f_less _ _ = True"

fun f_neg :: "pyfloat \<Rightarrow> pyfloat" where
  "f_neg (Number a) = Number (- a)"
| "f_neg PosInf = NegInf"
| "f_neg NegInf = PosInf"
| "f_neg NaN = NaN"

fun f_add :: "pyfloat \<Rightarrow> pyfloat \<Rightarrow> pyfloat" where
  "f_add (Number a) (Number b) = Number (a + b)"
| "f_add NaN _ = NaN"
| "f_add _ NaN = NaN"
| "f_add PosInf NegInf = NaN"
| "f_add NegInf PosInf = NaN"
| "f_add PosInf _ = PosInf"
| "f_add _ PosInf = PosInf"
| "f_add NegInf _ = NegInf"
| "f_add _ NegInf = NegInf"

definition f_sub :: "pyfloat \<Rightarrow> pyfloat \<Rightarrow> pyfloat" where
  "f_sub x y = f_add x (f_neg y)"

definition signed_inf :: "real \<Rightarrow> pyfloat" where
  "signed_inf a = (if a = 0 then NaN else if 0 < a then PosInf else NegInf)"

fun f_mul :: "pyfloat \<Rightarrow> pyfloat \<Rightarrow> pyfloat" where
  "f_mul (Number a) (Number b) = Number (a * b)"
| "f_mul NaN _ = NaN"
| "f_mul _ NaN = NaN"
| "f_mul (Number a) PosInf = signed_inf a"
| "f_mul PosInf (Number a) = signed_inf a"
| "f_mul (Number a) NegInf = signed_inf (- a)"
| "f_mul NegInf (Number a) = signed_inf (- a)"
| "f_mul PosInf PosInf = PosInf"
| "f_mul NegInf NegInf = PosInf"
| "f_mul PosInf NegInf = NegInf"
| "f_mul NegInf PosInf = NegInf"

subsection \<open>datetime: ordinals of the proleptic Gregorian calendar\<close>

text \<open>
  \<open>datetime.now() - timedelta(days=k)\<close> goes through the day ordinal
  (\<open>_ymd2ord\<close>, \<open>_ord2ymd\<close> of the standard library). Only the calendar date
  is kept: the time of day plays no role in the subtraction of whole days or in
  \<open>strftime('%Y-%m')\<close>. A result before year 1 raises \<open>OverflowError\<close>.
\<close>

record date =
  year :: int
  month :: int
  day :: int

definition is_leap :: "int \<Rightarrow> bool" where
  "is_leap y = (y mod 4 = 0 \<and> (y mod 400 = 0 \<or> y mod 100 \<noteq> 0))"

definition DAYS_IN_MONTH :: "int list" where
  "DAYS_IN_MONTH = [-1, 31, 28, 31, 30, 31, 30, 31, 31, 30, 31, 30, 31]"

definition DAYS_BEFORE_MONTH :: "int list" where
  "DAYS_BEFORE_MONTH = [-1, 0, 31, 59, 90, 120, 151, 181, 212, 243, 273, 304, 334]"

definition days_before_year :: "int \<Rightarrow> int" where
  "days_before_year y =
     (let y1 = y - 1 in y1 * 365 + y1 div 4 - y1 div 100 + y1 div 400)"

definition days_before_month :: "int \<Rightarrow> int \<Rightarrow> int" where
  "days_before_month y m =
     DAYS_BEFORE_MONTH ! nat m + (if 2 < m \<and> is_leap y then 1 else 0)"

definition ymd2ord :: "date \<Rightarrow> int" where
  "ymd2ord d = days_before_year (year d) + days_before_month (year d) (month d) + day d"

definition ord2ymd :: "int \<Rightarrow> date" where
  "ord2ymd n =
     (let a = n - 1;
          n400 = a div 146097; b = a mod 146097;
          n100 = b div 36524; c = b mod 36524;
          n4 = c div 1461; e = c mod 1461;
          n1 = e div 365; r = e mod 365;
          y = n400 * 400 + 1 + n100 * 100 + n4 * 4 + n1
      in if n1 = 4 \<or> n100 = 4 then \<lparr>year = y - 1, month = 12, day = 31\<rparr>
         else
           let leapyear = (n1 = 3 \<and> (n100 = 3 \<or> n4 \<noteq> 24));
               m = (r + 50) div 32;
               preceding = DAYS_BEFORE_MONTH ! nat m + (if 2 < m \<and> leapyear then 1 else 0)
           in if r < preceding
              then let m' = m - 1;
                       preceding' = preceding
                         - (DAYS_IN_MONTH ! nat m' + (if m' = 2 \<and> leapyear then 1 else 0))
                   in \<lparr>year = y, month = m', day = r - preceding' + 1\<rparr>
              else \<lparr>year = y, month = m, day = r - preceding + 1\<rparr>)"

definition sub_days :: "date \<Rightarrow> int \<Rightarrow> date option" where
  "sub_days d k = (let n = ymd2ord d - k in if n < 1 then None else Some (ord2ymd n))"

text \<open>Chronological comparison, as the database compares two dates.\<close>

definition date_le :: "date \<Rightarrow> date \<Rightarrow> bool" where
  "date_le a b =
     (year a < year b
      \<or> (year a = year b \<and> (month a < month b \<or> (month a = month b \<and> day a \<le> day b))))"

definition date_less :: "date \<Rightarrow> date \<Rightarrow> bool" where
  "date_less a b =
     (year a < year b
      \<or> (year a = year b \<and> (month a < month b \<or> (month a = month b \<and> day a < day b))))"

subsection \<open>Decimal text: \<open>strftime('%Y-%m')\<close>, \<open>split('-')\<close> and \<open>int\<close>\<close>

fun digits :: "nat \<Rightarrow> nat \<Rightarrow> string" where
  "digits 0 n = []"
| "digits (Suc w) n = digits w (n div 10) @ [''0123456789'' ! (n mod 10)]"

definition strftime_Y_m :: "date \<Rightarrow> string" where
  "strftime_Y_m d = digits 4 (nat (year d)) @ ''-'' @ digits 2 (nat (month d))"

text \<open>The value of a decimal digit: its position among the ten digits.\<close>

definition digit_value :: "char \<Rightarrow> nat option" where
  "digit_value c =
     (let i = length (takeWhile (\<lambda>x. x \<noteq> c) ''0123456789'')
      in if i < 10 then Some i else None)"

fun int_of_digits :: "string \<Rightarrow> nat \<Rightarrow> nat option" where
  "int_of_digits [] acc = Some acc"
| "int_of_digits (c # cs) acc =
     (case digit_value c of None \<Rightarrow> None | Some v \<Rightarrow> int_of_digits cs (acc * 10 + v))"

definition py_int_str :: "string \<Rightarrow> int option" where
  "py_int_str s = (if s = [] then None else map_option int (int_of_digits s 0))"

fun split_dash :: "string \<Rightarrow> string list" where
  "split_dash [] = [[]]"
| "split_dash (c # cs) =
     (if c = CHR ''-'' then [] # split_dash cs
      else (case split_dash cs of p # ps \<Rightarrow> (c # p) # ps | [] \<Rightarrow> [[c]]))"

text \<open>\<open>year, mon = map(int, month.split('-'))\<close>: anything but two numbers is a ValueError.\<close>

definition year_mon :: "string \<Rightarrow> (int \<times> int) option" where
  "year_mon label =
     (case split_dash label of
        [a, b] \<Rightarrow> (case (py_int_str a, py_int_str b) of
                      (Some y, Some m) \<Rightarrow> Some (y, m)
                    | _ \<Rightarrow> None)
      | _ \<Rightarrow> None)"

section \<open>The database and the connection\<close>

text \<open>
  The tables the two modules read and write, with the columns their statements name.
  A column is optional where the source guards against NULL (\<open>if part[3] else 0.0\<close>,
  \<open>COALESCE\<close>, \<open>or 0\<close>). Timestamp columns that no statement reads back
  (\<open>transaction_date\<close>, \<open>recorded_date\<close>, \<open>last_updated\<close>) are left out.
\<close>

record inventory_row =
  inv_part_number :: string
  inv_name :: string
  inv_location :: string
  inv_quantity_in_stock :: "pyfloat option"
  inv_unit_price :: "pyfloat option"
  inv_status :: string

record stock_transaction =
  txn_part_number :: string
  txn_transaction_type :: string
  txn_quantity :: pyfloat
  txn_technician_name :: string
  txn_notes :: string

record cm_part_used =
  used_cm_number :: string
  used_part_number :: string
  used_quantity_used :: pyfloat
  used_total_cost :: pyfloat
  used_recorded_by :: string
  used_notes :: string

record equipment_row =
  eq_bfm_equipment_no :: string
  eq_status :: string
  eq_monthly_pm :: string
  eq_annual_pm :: string

record pm_completion =
  pm_bfm_equipment_no :: string
  pm_completion_date :: date
  pm_labor_hours :: "real option"

record cm_row =
  cm_cm_number :: string
  cm_bfm_equipment_no :: string
  cm_reported_date :: date
  cm_labor_hours :: "real option"

record parts_request =
  cpr_cm_number :: string
  cpr_requested_date :: date

record database =
  mro_inventory :: "inventory_row list"
  mro_stock_transactions :: "stock_transaction list"
  cm_parts_used :: "cm_part_used list"
  equipment :: "equipment_row list"
  pm_completions :: "pm_completion list"
  corrective_maintenance :: "cm_row list"
  cm_parts_requests :: "parts_request list"

datatype sql =
    SELECT_active_parts
  | SELECT_unit_price
  | INSERT_stock_transaction
  | INSERT_cm_parts_used
  | UPDATE_inventory_quantity
  | SELECT_equipment
  | COUNT_pm_completions
  | COUNT_corrective_maintenance
  | SUM_pm_labor_hours
  | SUM_cm_labor_hours
  | COUNT_parts_requests

datatype box = Question | Information | Warning | Critical

datatype effect =
    Execute sql
  | Commit
  | Rollback
  | MessageBox box string
  | Accept
  | Reject
  | Callback bool

text \<open>
  The connection with what the program does to the outside, in program order:
  \<open>committed\<close> is the stored state, \<open>pending\<close> the state the open transaction sees,
  \<open>trace\<close> every statement sent and every dialog effect. \<open>ops_left\<close> stands for
  the storage failing: \<open>Some n\<close> lets \<open>n\<close> more statements through and raises on the
  next one, \<open>None\<close> never raises. \<open>rollback\<close> itself is taken to succeed.
\<close>

record env =
  committed :: database
  pending :: database
  ops_left :: "nat option"
  trace :: "effect list"

definition emit :: "effect \<Rightarrow> env \<Rightarrow> env" where
  "emit e w = w\<lparr>trace := trace w @ [e]\<rparr>"

definition send :: "effect \<Rightarrow> env \<Rightarrow> env \<times> bool" where
  "send e w =
     (case ops_left w of
        None \<Rightarrow> (emit e w, True)
      | Some 0 \<Rightarrow> (emit e w, False)
      | Some (Suc n) \<Rightarrow> (emit e (w\<lparr>ops_left := Some n\<rparr>), True))"

definition query :: "sql \<Rightarrow> (database \<Rightarrow> 'a) \<Rightarrow> env \<Rightarrow> env \<times> (error + 'a)" where
  "query s f w =
     (case send (Execute s) w of
        (w1, True) \<Rightarrow> (w1, Inr (f (pending w1)))
      | (w1, False) \<Rightarrow> (w1, Inl StorageError))"

definition commit :: "env \<Rightarrow> env \<times> bool" where
  "commit w =
     (case send Commit w of
        (w1, True) \<Rightarrow> (w1\<lparr>committed := pending w1\<rparr>, True)
      | (w1, False) \<Rightarrow> (w1, False))"

definition rollback :: "env \<Rightarrow> env" where
  "rollback w = emit Rollback (w\<lparr>pending := committed w\<rparr>)"

section \<open>equipment_history.py: EquipmentHistory\<close>

subsection \<open>The statements\<close>

text \<open>\<open>fetchone()\<close> of the equipment query: the first matching row, if any.\<close>

definition select_equipment :: "string \<Rightarrow> database \<Rightarrow> equipment_row option" where
  "select_equipment bfm_no db = find (\<lambda>r. eq_bfm_equipment_no r = bfm_no) (equipment db)"

definition count_rows :: "'a list \<Rightarrow> int" where
  "count_rows rows = int (length rows)"

text \<open>\<open>COALESCE(SUM(labor_hours), 0)\<close>: NULL hours are skipped by the sum.\<close>

definition sum_hours :: "real option list \<Rightarrow> real" where
  "sum_hours hs = sum_list (map (\<lambda>h. case h of None \<Rightarrow> 0 | Some x \<Rightarrow> x) hs)"

definition pm_since :: "string \<Rightarrow> date \<Rightarrow> database \<Rightarrow> pm_completion list" where
  "pm_since bfm_no d db =
     filter (\<lambda>r. pm_bfm_equipment_no r = bfm_no \<and> date_le d (pm_completion_date r))
       (pm_completions db)"

definition cm_since :: "string \<Rightarrow> date \<Rightarrow> database \<Rightarrow> cm_row list" where
  "cm_since bfm_no d db =
     filter (\<lambda>r. cm_bfm_equipment_no r = bfm_no \<and> date_le d (cm_reported_date r))
       (corrective_maintenance db)"

definition parts_requests_since :: "string \<Rightarrow> date \<Rightarrow> database \<Rightarrow> (parts_request \<times> cm_row) list" where
  "parts_requests_since bfm_no d db =
     [(cpr, cm). cpr \<leftarrow> cm_parts_requests db, cm \<leftarrow> corrective_maintenance db,
        cpr_cm_number cpr = cm_cm_number cm \<and> cm_bfm_equipment_no cm = bfm_no
        \<and> date_le d (cpr_requested_date cpr)]"

definition pm_between :: "string \<Rightarrow> date \<Rightarrow> date \<Rightarrow> database \<Rightarrow> pm_completion list" where
  "pm_between bfm_no lo hi db =
     filter (\<lambda>r. pm_bfm_equipment_no r = bfm_no \<and> date_le lo (pm_completion_date r)
                 \<and> date_less (pm_completion_date r) hi)
       (pm_completions db)"

definition cm_between :: "string \<Rightarrow> date \<Rightarrow> date \<Rightarrow> database \<Rightarrow> cm_row list" where
  "cm_between bfm_no lo hi db =
     filter (\<lambda>r. cm_bfm_equipment_no r = bfm_no \<and> date_le lo (cm_reported_date r)
                 \<and> date_less (cm_reported_date r) hi)
       (corrective_maintenance db)"

subsection \<open>get_equipment_health_score\<close>

record metrics =
  health_score :: int
  pm_compliance :: int
  cm_frequency :: real
  downtime_days :: int
  parts_cost :: int
  labor_hours :: real
  status :: string
  recommendations :: "string list"
  parts_count :: "int option"

definition default_metrics :: metrics where
  "default_metrics =
     \<lparr>health_score = 0, pm_compliance = 0, cm_frequency = 0, downtime_days = 0,
      parts_cost = 0, labor_hours = 0, status = ''Unknown'', recommendations = [],
      parts_count = None\<rparr>"

definition expected_pms_of :: "equipment_row \<Rightarrow> int" where
  "expected_pms_of equip_row =
     (let expected_pms = 0;
          expected_pms = (if eq_monthly_pm equip_row = ''X'' then expected_pms + 12 else expected_pms);
          expected_pms = (if eq_annual_pm equip_row = ''X'' then expected_pms + 1 else expected_pms)
      in expected_pms)"

definition pm_compliance_of :: "int \<Rightarrow> int \<Rightarrow> int" where
  "pm_compliance_of completed_pms expected_pms =
     (if 0 < expected_pms
      then min 100 (py_int (real_of_int completed_pms / real_of_int expected_pms * 100))
      else 0)"

definition cm_frequency_of :: "int \<Rightarrow> real" where
  "cm_frequency_of cm_count = py_round1 (real_of_int cm_count / 12)"

text \<open>Lines 412 to 426: the score, updated in three steps, truncated, then kept at or above 0.\<close>

definition health_score_of :: "int \<Rightarrow> real \<Rightarrow> string \<Rightarrow> int" where
  "health_score_of pmc cmf st =
     (let score = 100;
          score = score - (100 - real_of_int pmc) * 0.3;
          score = (if 1 < cmf then score - min 20 ((cmf - 1) * 10) else score);
          score = (if st = ''Active'' then score else score - 30)
      in max 0 (py_int score))"

definition recommendations_of :: "int \<Rightarrow> real \<Rightarrow> int \<Rightarrow> string \<Rightarrow> string list" where
  "recommendations_of pmc cmf pcount st =
     (if pmc < 80 then [''Improve PM compliance - currently below 80%''] else [])
     @ (if 2 < cmf then [''High CM frequency - investigate root causes''] else [])
     @ (if 20 < pcount then [''High parts usage - review equipment reliability''] else [])
     @ (if st = ''Active'' then []
        else [''Equipment status is '' @ [CHR 0x27] @ st @ [CHR 0x27] @ '' - review and update''])"

text \<open>The body of the \<open>try\<close>: six statements and the commit, any of which may raise.\<close>

definition health_score_body :: "string \<Rightarrow> date \<Rightarrow> env \<Rightarrow> env \<times> (error + metrics)" where
  "health_score_body bfm_no now w =
     (case query SELECT_equipment (select_equipment bfm_no) w of
        (w1, Inl e) \<Rightarrow> (w1, Inl e)
      | (w1, Inr None) \<Rightarrow> (w1, Inr default_metrics)
      | (w1, Inr (Some equip_row)) \<Rightarrow>
     (case sub_days now 365 of
        None \<Rightarrow> (w1, Inl OverflowError)
      | Some one_year_ago \<Rightarrow>
     (case query COUNT_pm_completions (\<lambda>db. count_rows (pm_since bfm_no one_year_ago db)) w1 of
        (w2, Inl e) \<Rightarrow> (w2, Inl e)
      | (w2, Inr completed_pms) \<Rightarrow>
     (case query COUNT_corrective_maintenance (\<lambda>db. count_rows (cm_since bfm_no one_year_ago db)) w2 of
        (w3, Inl e) \<Rightarrow> (w3, Inl e)
      | (w3, Inr cm_count) \<Rightarrow>
     (case query SUM_pm_labor_hours
             (\<lambda>db. sum_hours (map pm_labor_hours (pm_since bfm_no one_year_ago db))) w3 of
        (w4, Inl e) \<Rightarrow> (w4, Inl e)
      | (w4, Inr pm_hours) \<Rightarrow>
     (case query SUM_cm_labor_hours
             (\<lambda>db. sum_hours (map cm_labor_hours (cm_since bfm_no one_year_ago db))) w4 of
        (w5, Inl e) \<Rightarrow> (w5, Inl e)
      | (w5, Inr cm_hours) \<Rightarrow>
     (case query COUNT_parts_requests
             (\<lambda>db. count_rows (parts_requests_since bfm_no one_year_ago db)) w5 of
        (w6, Inl e) \<Rightarrow> (w6, Inl e)
      | (w6, Inr pcount) \<Rightarrow>
     (let st = eq_status equip_row;
          pmc = pm_compliance_of completed_pms (expected_pms_of equip_row);
          cmf = cm_frequency_of cm_count
      in case commit w6 of
           (w7, False) \<Rightarrow> (w7, Inl StorageError)
         | (w7, True) \<Rightarrow>
             (w7, Inr (default_metrics
                \<lparr>health_score := health_score_of pmc cmf st,
                 pm_compliance := pmc,
                 cm_frequency := cmf,
                 labor_hours := pm_hours + cm_hours,
                 status := st,
                 recommendations := recommendations_of pmc cmf pcount st,
                 parts_count := Some pcount\<rparr>))))))))))"

text \<open>The \<open>except\<close> clause: roll back, then raise the same error.\<close>

definition get_equipment_health_score :: "string \<Rightarrow> date \<Rightarrow> env \<Rightarrow> env \<times> (error + metrics)" where
  "get_equipment_health_score bfm_no now w =
     (case health_score_body bfm_no now w of
        (w1, Inl e) \<Rightarrow> (rollback w1, Inl e)
      | (w1, Inr m) \<Rightarrow> (w1, Inr m))"

subsection \<open>get_maintenance_trends\<close>

record trends =
  monthly_pm_counts :: "int list"
  monthly_cm_counts :: "int list"
  monthly_labor_hours :: "real list"
  monthly_parts_cost :: "real list"
  months :: "string list"

definition empty_trends :: trends where
  "empty_trends =
     \<lparr>monthly_pm_counts = [], monthly_cm_counts = [], monthly_labor_hours = [],
      monthly_parts_cost = [], months = []\<rparr>"

text \<open>
  Lines 473 to 476: for each \<open>i\<close> of \<open>range(months)\<close> the label of the day
  \<open>30 * i\<close> days before now, inserted at the front of the list.
\<close>

fun month_labels :: "date \<Rightarrow> nat list \<Rightarrow> string list \<Rightarrow> error + string list" where
  "month_labels current_date [] labels = Inr labels"
| "month_labels current_date (i # rest) labels =
     (case sub_days current_date (30 * int i) of
        None \<Rightarrow> Inl OverflowError
      | Some month_date \<Rightarrow> month_labels current_date rest (strftime_Y_m month_date # labels))"

text \<open>Lines 479 to 527: one bucket per label, four statements each.\<close>

fun monthly_data :: "string \<Rightarrow> string list \<Rightarrow> trends \<Rightarrow> env \<Rightarrow> env \<times> (error + trends)" where
  "monthly_data bfm_no [] t w = (w, Inr t)"
| "monthly_data bfm_no (label # rest) t w =
     (case year_mon label of
        None \<Rightarrow> (w, Inl ValueError)
      | Some (y, mon) \<Rightarrow>
     (let month_start = \<lparr>year = y, month = mon, day = 1\<rparr>;
          month_end = (if mon = 12 then \<lparr>year = y + 1, month = 1, day = 1\<rparr>
                       else \<lparr>year = y, month = mon + 1, day = 1\<rparr>)
      in
      case query COUNT_pm_completions
             (\<lambda>db. count_rows (pm_between bfm_no month_start month_end db)) w of
        (w1, Inl e) \<Rightarrow> (w1, Inl e)
      | (w1, Inr pm_count) \<Rightarrow>
     (case query COUNT_corrective_maintenance
             (\<lambda>db. count_rows (cm_between bfm_no month_start month_end db)) w1 of
        (w2, Inl e) \<Rightarrow> (w2, Inl e)
      | (w2, Inr cm_count) \<Rightarrow>
     (case query SUM_pm_labor_hours
             (\<lambda>db. sum_hours (map pm_labor_hours (pm_between bfm_no month_start month_end db))) w2 of
        (w3, Inl e) \<Rightarrow> (w3, Inl e)
      | (w3, Inr pm_hours) \<Rightarrow>
     (case query SUM_cm_labor_hours
             (\<lambda>db. sum_hours (map cm_labor_hours (cm_between bfm_no month_start month_end db))) w3 of
        (w4, Inl e) \<Rightarrow> (w4, Inl e)
      | (w4, Inr cm_hours) \<Rightarrow>
          monthly_data bfm_no rest
            (t\<lparr>monthly_pm_counts := monthly_pm_counts t @ [pm_count],
               monthly_cm_counts := monthly_cm_counts t @ [cm_count],
               monthly_labor_hours := monthly_labor_hours t @ [pm_hours + cm_hours]\<rparr>)
            w4)))))"

definition trends_body :: "string \<Rightarrow> int \<Rightarrow> date \<Rightarrow> env \<Rightarrow> env \<times> (error + trends)" where
  "trends_body bfm_no n_months current_date w =
     (case month_labels current_date [0..<nat n_months] [] of
        Inl e \<Rightarrow> (w, Inl e)
      | Inr labels \<Rightarrow>
     (case monthly_data bfm_no labels (empty_trends\<lparr>months := labels\<rparr>) w of
        (w1, Inl e) \<Rightarrow> (w1, Inl e)
      | (w1, Inr t) \<Rightarrow>
     (case commit w1 of
        (w2, False) \<Rightarrow> (w2, Inl StorageError)
      | (w2, True) \<Rightarrow> (w2, Inr t))))"

definition get_maintenance_trends :: "string \<Rightarrow> int \<Rightarrow> date \<Rightarrow> env \<Rightarrow> env \<times> (error + trends)" where
  "get_maintenance_trends bfm_no n_months current_date w =
     (case trends_body bfm_no n_months current_date w of
        (w1, Inl e) \<Rightarrow> (rollback w1, Inl e)
      | (w1, Inr t) \<Rightarrow> (w1, Inr t))"

section \<open>cm_parts_integration.py: PartsConsumptionDialog\<close>

subsection \<open>The statements\<close>

text \<open>
  A row of \<open>load_parts_data\<close>: part_number, name, location, quantity_in_stock of an
  Active part. \<open>ORDER BY part_number\<close> only fixes the order of display and is not
  modelled: rows come in table order.
\<close>

record parts_row =
  row_part_number :: string
  row_name :: string
  row_location :: string
  row_quantity_in_stock :: "pyfloat option"

definition select_active_parts :: "database \<Rightarrow> parts_row list" where
  "select_active_parts db =
     map (\<lambda>r. \<lparr>row_part_number = inv_part_number r, row_name = inv_name r,
                row_location = inv_location r,
                row_quantity_in_stock = inv_quantity_in_stock r\<rparr>)
       (filter (\<lambda>r. inv_status r = ''Active'') (mro_inventory db))"

text \<open>\<open>fetchone()\<close> of the unit price query: no row, or the (possibly NULL) price.\<close>

definition select_unit_price :: "string \<Rightarrow> database \<Rightarrow> pyfloat option option" where
  "select_unit_price pn db =
     map_option inv_unit_price (find (\<lambda>r. inv_part_number r = pn) (mro_inventory db))"

text \<open>
  Both inserted tables declare \<open>FOREIGN KEY (part_number) REFERENCES mro_inventory\<close>
  (mro_stock_module.py, lines 171 and 186): inserting for an unknown part raises.
\<close>

definition has_part :: "string \<Rightarrow> database \<Rightarrow> bool" where
  "has_part pn db = (pn \<in> set (map inv_part_number (mro_inventory db)))"

definition insert_stock_transaction :: "stock_transaction \<Rightarrow> database \<Rightarrow> error + database" where
  "insert_stock_transaction t db =
     (if has_part (txn_part_number t) db
      then Inr (db\<lparr>mro_stock_transactions := mro_stock_transactions db @ [t]\<rparr>)
      else Inl IntegrityError)"

definition insert_cm_parts_used :: "cm_part_used \<Rightarrow> database \<Rightarrow> error + database" where
  "insert_cm_parts_used u db =
     (if has_part (used_part_number u) db
      then Inr (db\<lparr>cm_parts_used := cm_parts_used db @ [u]\<rparr>)
      else Inl IntegrityError)"

text \<open>\<open>SET quantity_in_stock = quantity_in_stock - %s WHERE part_number = %s\<close>; NULL stays NULL.\<close>

definition decrement :: "string \<Rightarrow> pyfloat \<Rightarrow> inventory_row \<Rightarrow> inventory_row" where
  "decrement pn q r =
     (if inv_part_number r = pn
      then r\<lparr>inv_quantity_in_stock := map_option (\<lambda>x. f_sub x q) (inv_quantity_in_stock r)\<rparr>
      else r)"

definition update_inventory_quantity :: "string \<Rightarrow> pyfloat \<Rightarrow> database \<Rightarrow> error + database" where
  "update_inventory_quantity pn q db =
     Inr (db\<lparr>mro_inventory := map (decrement pn q) (mro_inventory db)\<rparr>)"

definition statement :: "sql \<Rightarrow> (database \<Rightarrow> error + database) \<Rightarrow> env \<Rightarrow> env \<times> error option" where
  "statement s f w =
     (case send (Execute s) w of
        (w1, False) \<Rightarrow> (w1, Some StorageError)
      | (w1, True) \<Rightarrow>
          (case f (pending w1) of
             Inl e \<Rightarrow> (w1, Some e)
           | Inr db \<Rightarrow> (w1\<lparr>pending := db\<rparr>, None)))"

subsection \<open>The dialog\<close>

record consumed_part =
  cp_part_number :: string
  cp_description :: string
  cp_quantity :: pyfloat

text \<open>\<open>callback\<close> tells whether the caller passed one; it is taken not to raise.\<close>

record dialog =
  cm_number :: string
  technician_name :: string
  callback :: bool
  consumed_parts :: "consumed_part list"
  all_parts_data :: "parts_row list"

definition load_parts_data :: "dialog \<Rightarrow> env \<Rightarrow> dialog \<times> env" where
  "load_parts_data d w =
     (case query SELECT_active_parts select_active_parts w of
        (w1, Inr rows) \<Rightarrow> (d\<lparr>all_parts_data := rows\<rparr>, w1)
      | (w1, Inl e) \<Rightarrow> (d, emit (MessageBox Critical ''Error'') w1))"

text \<open>\<open>__init__\<close>: both lists empty, then \<open>load_parts_data\<close>.\<close>

definition init_dialog :: "string \<Rightarrow> string \<Rightarrow> bool \<Rightarrow> env \<Rightarrow> dialog \<times> env" where
  "init_dialog cm tech cb w =
     load_parts_data
       \<lparr>cm_number = cm, technician_name = tech, callback = cb,
        consumed_parts = [], all_parts_data = []\<rparr> w"

datatype add_outcome =
    NoSelection
  | InvalidQuantity
  | QuantityNotPositive
  | Unhandled error
  | OutOfStock string pyfloat
  | InsufficientStock pyfloat pyfloat string
  | AlreadyInList
  | Added string

text \<open>
  \<open>add_consumed_part\<close>, lines 318 to 373. \<open>selected_items\<close> are the selected rows of
  the parts tree, \<open>qty_entry\<close> is \<open>float(self.qty_entry.text())\<close> with \<open>None\<close> for
  its ValueError; the texts \<open>nan\<close> and \<open>inf\<close> are floats. The available quantity is
  read back from the tree's text: \<open>float('None')\<close> for a NULL quantity is a ValueError
  nothing catches. The three guards are Python's \<open>qty_used <= 0\<close>,
  \<open>qty_available <= 0\<close> and \<open>qty_used > qty_available\<close>.
\<close>

definition add_consumed_part :: "dialog \<Rightarrow> parts_row list \<Rightarrow> pyfloat option \<Rightarrow> add_outcome \<times> dialog" where
  "add_consumed_part d selected_items qty_entry =
     (case selected_items of
        [] \<Rightarrow> (NoSelection, d)
      | item # _ \<Rightarrow>
     (case qty_entry of
        None \<Rightarrow> (InvalidQuantity, d)
      | Some qty_used \<Rightarrow>
          if f_le qty_used (Number 0) then (QuantityNotPositive, d)
          else
     (let part_num = row_part_number item; desc = row_name item
      in case row_quantity_in_stock item of
        None \<Rightarrow> (Unhandled ValueError, d)
      | Some qty_available \<Rightarrow>
          if f_le qty_available (Number 0) then (OutOfStock part_num qty_available, d)
          else if f_less qty_available qty_used
            then (InsufficientStock qty_used qty_available part_num, d)
          else if list_ex (\<lambda>existing. cp_part_number existing = part_num) (consumed_parts d)
            then (AlreadyInList, d)
          else (Added part_num,
                d\<lparr>consumed_parts := consumed_parts d
                     @ [\<lparr>cp_part_number = part_num, cp_description = desc,
                         cp_quantity = qty_used\<rparr>]\<rparr>))))"

definition remove_consumed_part :: "dialog \<Rightarrow> consumed_part list \<Rightarrow> dialog" where
  "remove_consumed_part d selected_items =
     (case selected_items of
        [] \<Rightarrow> d
      | item # _ \<Rightarrow>
          d\<lparr>consumed_parts :=
              filter (\<lambda>p. cp_part_number p \<noteq> cp_part_number item) (consumed_parts d)\<rparr>)"

text \<open>The message box each outcome of \<open>add_consumed_part\<close> shows.\<close>

definition shown :: "add_outcome \<Rightarrow> effect list" where
  "shown out =
     (case out of
        NoSelection \<Rightarrow> [MessageBox Warning ''Warning'']
      | InvalidQuantity \<Rightarrow> [MessageBox Critical ''Error'']
      | QuantityNotPositive \<Rightarrow> [MessageBox Critical ''Error'']
      | Unhandled e \<Rightarrow> []
      | OutOfStock pn avail \<Rightarrow> [MessageBox Critical ''Part Out of Stock'']
      | InsufficientStock q avail pn \<Rightarrow> [MessageBox Critical ''Insufficient Stock'']
      | AlreadyInList \<Rightarrow> [MessageBox Warning ''Warning'']
      | Added pn \<Rightarrow> [MessageBox Information ''Success''])"

text \<open>
  What the user does between opening the dialog and saving: select a row of the parts
  tree (rows of \<open>all_parts_data\<close>; the search box only hides rows) and add it with a
  quantity, or select a row of the consumed tree and remove it.
\<close>

datatype ui_action = AddPart "nat option" "pyfloat option" | RemovePart "nat option"

definition selected :: "'a list \<Rightarrow> nat option \<Rightarrow> 'a list" where
  "selected rows sel =
     (case sel of None \<Rightarrow> [] | Some i \<Rightarrow> if i < length rows then [rows ! i] else [])"

fun do_action :: "ui_action \<Rightarrow> dialog \<times> env \<Rightarrow> dialog \<times> env" where
  "do_action (AddPart sel qty) (d, w) =
     (case add_consumed_part d (selected (all_parts_data d) sel) qty of
        (out, d') \<Rightarrow> (d', w\<lparr>trace := trace w @ shown out\<rparr>))"
| "do_action (RemovePart sel) (d, w) =
     (case selected (consumed_parts d) sel of
        [] \<Rightarrow> (d, emit (MessageBox Warning ''Warning'') w)
      | items \<Rightarrow> (remove_consumed_part d items, w))"

definition do_actions :: "ui_action list \<Rightarrow> dialog \<times> env \<Rightarrow> dialog \<times> env" where
  "do_actions acts s = fold do_action acts s"

subsection \<open>save_and_close\<close>

text \<open>\<open>float(result[0]) if result and result[0] else 0.0\<close>: a price of 0 is falsy.\<close>

definition unit_price_of :: "pyfloat option option \<Rightarrow> pyfloat" where
  "unit_price_of result =
     (case result of
        Some (Some p) \<Rightarrow> if p = Number 0 then Number 0 else p
      | _ \<Rightarrow> Number 0)"

text \<open>Lines 409 to 453: the four statements of one consumed part, in order.\<close>

fun record_parts :: "dialog \<Rightarrow> consumed_part list \<Rightarrow> env \<Rightarrow> env \<times> error option" where
  "record_parts d [] w = (w, None)"
| "record_parts d (part # rest) w =
     (case query SELECT_unit_price (select_unit_price (cp_part_number part)) w of
        (w1, Inl e) \<Rightarrow> (w1, Some e)
      | (w1, Inr result) \<Rightarrow>
     (let unit_price = unit_price_of result;
          total_cost = f_mul unit_price (cp_quantity part)
      in
      case statement INSERT_stock_transaction
             (insert_stock_transaction
                \<lparr>txn_part_number = cp_part_number part,
                 txn_transaction_type = ''Issue'',
                 txn_quantity = f_neg (cp_quantity part),
                 txn_technician_name = technician_name d,
                 txn_notes = ''CM Work Order: '' @ cm_number d\<rparr>) w1 of
        (w2, Some e) \<Rightarrow> (w2, Some e)
      | (w2, None) \<Rightarrow>
     (case statement INSERT_cm_parts_used
             (insert_cm_parts_used
                \<lparr>used_cm_number = cm_number d,
                 used_part_number = cp_part_number part,
                 used_quantity_used = cp_quantity part,
                 used_total_cost = total_cost,
                 used_recorded_by = technician_name d,
                 used_notes = ''Parts consumed during CM '' @ cm_number d\<rparr>) w2 of
        (w3, Some e) \<Rightarrow> (w3, Some e)
      | (w3, None) \<Rightarrow>
     (case statement UPDATE_inventory_quantity
             (update_inventory_quantity (cp_part_number part) (cp_quantity part)) w3 of
        (w4, Some e) \<Rightarrow> (w4, Some e)
      | (w4, None) \<Rightarrow> record_parts d rest w4))))"

datatype response = Yes | No

datatype save_outcome = Declined | ClosedWithoutParts | Recorded nat | Failed error

definition notify :: "dialog \<Rightarrow> bool \<Rightarrow> env \<Rightarrow> env" where
  "notify d success w = (if callback d then emit (Callback success) w else w)"

text \<open>The \<open>except\<close> clause, lines 464 to 468: roll back, show the error, tell the caller.\<close>

definition save_failed :: "dialog \<Rightarrow> error \<Rightarrow> env \<Rightarrow> save_outcome \<times> env" where
  "save_failed d e w =
     (Failed e, notify d False (emit (MessageBox Critical ''Error'') (rollback w)))"

definition save_and_close :: "dialog \<Rightarrow> response \<Rightarrow> env \<Rightarrow> save_outcome \<times> env" where
  "save_and_close d answer w =
     (if consumed_parts d = []
      then let w1 = emit (MessageBox Question ''Confirm'') w
           in if answer = No then (Declined, w1)
              else (ClosedWithoutParts, notify d True (emit Accept w1))
      else
        case record_parts d (consumed_parts d) w of
          (w1, Some e) \<Rightarrow> save_failed d e w1
        | (w1, None) \<Rightarrow>
            (case commit w1 of
               (w2, False) \<Rightarrow> save_failed d StorageError w2
             | (w2, True) \<Rightarrow>
                 (Recorded (length (consumed_parts d)),
                  notify d True (emit Accept (emit (MessageBox Information ''Success'') w2)))))"

section \<open>The specification's formulas\<close>

text \<open>
  The health score as the specification words it, for comparison with
  \<open>health_score_of\<close>: the compliance is \<open>min(100, completed / expected * 100)\<close>, a
  real number, and 0 when nothing is expected; the score is clamped to [0, 100] and
  then truncated.
\<close>

definition spec_pm_compliance :: "int \<Rightarrow> int \<Rightarrow> real" where
  "spec_pm_compliance completed expected =
     (if expected = 0 then 0
      else min 100 (real_of_int completed / real_of_int expected * 100))"

definition spec_health_score :: "real \<Rightarrow> real \<Rightarrow> string \<Rightarrow> int" where
  "spec_health_score pmc cmf st =
     py_int (max 0 (min 100
       (100 - (100 - pmc) * 0.3
            - (if 1 < cmf then min 20 ((cmf - 1) * 10) else 0)
            - (if st = ''Active'' then 0 else 30))))"

section \<open>Example data\<close>

definition pm_on :: "string \<Rightarrow> int \<Rightarrow> int \<Rightarrow> int \<Rightarrow> pm_completion" where
  "pm_on bfm_no y m dd =
     \<lparr>pm_bfm_equipment_no = bfm_no, pm_completion_date = \<lparr>year = y, month = m, day = dd\<rparr>,
      pm_labor_hours = Some 2\<rparr>"

definition history_db :: "equipment_row list \<Rightarrow> pm_completion list \<Rightarrow> database" where
  "history_db eqs pms =
     \<lparr>mro_inventory = [], mro_stock_transactions = [], cm_parts_used = [],
      equipment = eqs, pm_completions = pms, corrective_maintenance = [],
      cm_parts_requests = []\<rparr>"

definition connect :: "database \<Rightarrow> env" where
  "connect db = \<lparr>committed = db, pending = db, ops_left = None, trace = []\<rparr>"

definition nine_completions :: "pm_completion list" where
  "nine_completions =
     [pm_on ''EQ-1'' 2024 7 1, pm_on ''EQ-1'' 2024 8 1, pm_on ''EQ-1'' 2024 9 1,
      pm_on ''EQ-1'' 2024 10 1, pm_on ''EQ-1'' 2024 11 1, pm_on ''EQ-1'' 2024 12 1,
      pm_on ''EQ-1'' 2025 1 1, pm_on ''EQ-1'' 2025 2 1, pm_on ''EQ-1'' 2025 3 1]"

definition scenario_D :: env where
  "scenario_D =
     connect (history_db
       [\<lparr>eq_bfm_equipment_no = ''EQ-1'', eq_status = ''Active'', eq_monthly_pm = ''X'',
         eq_annual_pm = ''''\<rparr>] nine_completions)"

definition today :: date where "today = \<lparr>year = 2025, month = 6, day = 15\<rparr>"


definition seven_of_thirteen :: env where
  "seven_of_thirteen =
     connect (history_db
       [\<lparr>eq_bfm_equipment_no = ''EQ-1'', eq_status = ''Active'', eq_monthly_pm = ''X'',
         eq_annual_pm = ''X''\<rparr>] (take 7 nine_completions))"

text \<open>Scenario A: part BRG-100 with 10 in stock, and a second part out of stock.\<close>

definition part :: "string \<Rightarrow> real \<Rightarrow> string \<Rightarrow> inventory_row" where
  "part pn qty st =
     \<lparr>inv_part_number = pn, inv_name = ''Bearing'', inv_location = ''A1'',
      inv_quantity_in_stock = Some (Number qty), inv_unit_price = Some (Number 4),
      inv_status = st\<rparr>"

definition stock_db :: "inventory_row list \<Rightarrow> database" where
  "stock_db rows =
     \<lparr>mro_inventory = rows, mro_stock_transactions = [], cm_parts_used = [],
      equipment = [], pm_completions = [], corrective_maintenance = [],
      cm_parts_requests = []\<rparr>"

definition scenario_A :: env where
  "scenario_A = connect (stock_db [part ''BRG-100'' 10 ''Active'', part ''SEAL-7'' 0 ''Active''])"

definition brg_100 :: parts_row where
  "brg_100 =
     \<lparr>row_part_number = ''BRG-100'', row_name = ''Bearing'', row_location = ''A1'',
      row_quantity_in_stock = Some (Number 10)\<rparr>"

text \<open>The dialog of work order CM-001 after it was opened on Scenario A.\<close>

definition dialog_A :: dialog where
  "dialog_A = fst (init_dialog ''CM-001'' ''J.Smith'' True scenario_A)"




text \<open>Scenario C: the dialog of Scenario A after 3 of BRG-100 were added.\<close>

definition dialog_C :: dialog where
  "dialog_C = fst (do_action (AddPart (Some 0) (Some (Number 3))) (dialog_A, scenario_A))"

text \<open>
  A stock of two parts, the dialog after 3 of BRG-100 and 2 of SEAL-7 were added, and
  the same stock on a storage that accepts six more statements and fails on the
  seventh, which is the third statement of the second part.
\<close>

definition scenario_B :: env where
  "scenario_B = connect (stock_db [part ''BRG-100'' 10 ''Active'', part ''SEAL-7'' 5 ''Active''])"

definition dialog_B :: dialog where
  "dialog_B =
     fst (do_actions [AddPart (Some 0) (Some (Number 3)), AddPart (Some 1) (Some (Number 2))]
            (init_dialog ''CM-001'' ''J.Smith'' True scenario_B))"

definition failing_storage :: env where
  "failing_storage = scenario_B\<lparr>ops_left := Some 6\<rparr>"



section \<open>The notions of the claims\<close>






text \<open>The movement and the usage row that recording one consumed part inserts.\<close>

definition issue_of :: "dialog \<Rightarrow> consumed_part \<Rightarrow> stock_transaction" where
  "issue_of d p =
     \<lparr>txn_part_number = cp_part_number p, txn_transaction_type = ''Issue'',
      txn_quantity = f_neg (cp_quantity p), txn_technician_name = technician_name d,
      txn_notes = ''CM Work Order: '' @ cm_number d\<rparr>"

definition usage_of :: "dialog \<Rightarrow> consumed_part \<Rightarrow> pyfloat \<Rightarrow> cm_part_used" where
  "usage_of d p unit_price =
     \<lparr>used_cm_number = cm_number d, used_part_number = cp_part_number p,
      used_quantity_used = cp_quantity p,
      used_total_cost = f_mul unit_price (cp_quantity p),
      used_recorded_by = technician_name d,
      used_notes = ''Parts consumed during CM '' @ cm_number d\<rparr>"

text \<open>The database with a whole batch applied: what a save that succeeds must commit.\<close>

fun recorded :: "dialog \<Rightarrow> consumed_part list \<Rightarrow> database \<Rightarrow> database" where
  "recorded d [] db = db"
| "recorded d (p # rest) db =
     recorded d rest
       (db\<lparr>mro_stock_transactions := mro_stock_transactions db @ [issue_of d p],
           cm_parts_used := cm_parts_used db
             @ [usage_of d p (unit_price_of (select_unit_price (cp_part_number p) db))],
           mro_inventory := map (decrement (cp_part_number p) (cp_quantity p)) (mro_inventory db)\<rparr>)"

text \<open>What goes to the storage, as opposed to what the user sees.\<close>

definition to_storage :: "effect \<Rightarrow> bool" where
  "to_storage e = (case e of Execute s \<Rightarrow> True | Commit \<Rightarrow> True | _ \<Rightarrow> False)"







section \<open>Properties of the connection\<close>

lemma emit_simps:
  "ops_left (emit e w) = ops_left w" "pending (emit e w) = pending w"
  "committed (emit e w) = committed w" "trace (emit e w) = trace w @ [e]"
  by (simp_all add: emit_def)

lemma send_healthy: "ops_left w = None \<Longrightarrow> send e w = (emit e w, True)"
  by (simp add: send_def)

lemma query_healthy:
  "ops_left w = None \<Longrightarrow> query s f w = (emit (Execute s) w, Inr (f (pending w)))"
  by (simp add: query_def send_healthy emit_simps)

lemma commit_healthy:
  "ops_left w = None \<Longrightarrow> commit w = ((emit Commit w)\<lparr>committed := pending w\<rparr>, True)"
  by (simp add: commit_def send_healthy emit_simps)

lemma send_keeps:
  "send e w = (w', b) \<Longrightarrow> pending w' = pending w \<and> committed w' = committed w \<and> trace w' = trace w @ [e]"
  by (auto simp: send_def emit_def split: option.splits nat.splits)

lemma count_rows_nonneg: "0 \<le> count_rows xs"
  by (simp add: count_rows_def)

lemma pm_compliance_of_range:
  "0 \<le> c \<Longrightarrow> 0 \<le> pm_compliance_of c e \<and> pm_compliance_of c e \<le> 100"
  by (simp add: pm_compliance_of_def py_int_def)

lemma score_range:
  assumes "0 \<le> pmc" "pmc \<le> 100"
  shows "20 \<le> 100 - (100 - real_of_int pmc) * 0.3
            - (if 1 < cmf then min 20 ((cmf - 1) * 10) else 0)
            - (if st = ''Active'' then 0 else 30)
       \<and> 100 - (100 - real_of_int pmc) * 0.3
            - (if 1 < cmf then min 20 ((cmf - 1) * 10) else 0)
            - (if st = ''Active'' then 0 else (30::real)) \<le> 100"
proof -
  define a where "a = (100 - real_of_int pmc) * 0.3"
  define b where "b = (if 1 < cmf then min 20 ((cmf - 1) * 10) else 0)"
  define c where "c = (if st = ''Active'' then 0 else (30::real))"
  have 1: "0 \<le> a \<and> a \<le> 30" using assms by (simp add: a_def)
  have 2: "0 \<le> b \<and> b \<le> 20" by (auto simp: b_def min_def)
  have 3: "0 \<le> c \<and> c \<le> 30" by (simp add: c_def)
  have "20 \<le> 100 - a - b - c \<and> 100 - a - b - c \<le> 100"
    using 1 2 3 by linarith
  then show ?thesis by (simp only: a_def b_def c_def)
qed

lemma health_score_of_eq:
  "health_score_of pmc cmf st =
     max 0 (py_int (100 - (100 - real_of_int pmc) * 0.3
            - (if 1 < cmf then min 20 ((cmf - 1) * 10) else 0)
            - (if st = ''Active'' then 0 else 30)))"
  by (simp add: health_score_of_def Let_def)

lemma health_score_of_range:
  assumes "0 \<le> pmc" "pmc \<le> 100"
  shows "20 \<le> health_score_of pmc cmf st \<and> health_score_of pmc cmf st \<le> 100"
proof -
  define s where "s = 100 - (100 - real_of_int pmc) * 0.3
            - (if 1 < cmf then min 20 ((cmf - 1) * 10) else 0)
            - (if st = ''Active'' then 0 else 30)"
  have r: "20 \<le> s \<and> s \<le> 100"
    unfolding s_def using score_range [OF assms] by simp
  have "health_score_of pmc cmf st = max 0 (py_int s)"
    by (simp add: health_score_of_eq s_def)
  moreover have "py_int s = \<lfloor>s\<rfloor>" using r by (simp add: py_int_def)
  moreover have "20 \<le> \<lfloor>s\<rfloor>" using r by (simp add: le_floor_iff)
  moreover have "\<lfloor>s\<rfloor> \<le> 100" using r by (simp add: floor_le_iff)
  ultimately show ?thesis by simp
qed

lemma health_score_of_spec:
  assumes "0 \<le> pmc" "pmc \<le> 100"
  shows "health_score_of pmc cmf st = spec_health_score (real_of_int pmc) cmf st"
proof -
  define s where "s = 100 - (100 - real_of_int pmc) * 0.3
            - (if 1 < cmf then min 20 ((cmf - 1) * 10) else 0)
            - (if st = ''Active'' then 0 else 30)"
  have r: "20 \<le> s \<and> s \<le> 100"
    unfolding s_def using score_range [OF assms] by simp
  have a: "health_score_of pmc cmf st = max 0 (py_int s)"
    by (simp add: health_score_of_eq s_def)
  have b: "spec_health_score (real_of_int pmc) cmf st = py_int (max 0 (min 100 s))"
    by (simp add: spec_health_score_def s_def)
  have c: "max 0 (min 100 s) = s" using r by simp
  have "py_int s = \<lfloor>s\<rfloor>" using r by (simp add: py_int_def)
  moreover have "20 \<le> \<lfloor>s\<rfloor>" using r by (simp add: le_floor_iff)
  ultimately have "max 0 (py_int s) = py_int s" by simp
  with a b c show ?thesis by simp
qed

lemma pm_compliance_of_spec:
  assumes "0 \<le> c" "0 \<le> e"
  shows "pm_compliance_of c e = py_int (spec_pm_compliance c e)"
proof (cases "e = 0")
  case True
  then show ?thesis by (simp add: pm_compliance_of_def spec_pm_compliance_def py_int_def)
next
  case False
  define x where "x = real_of_int c / real_of_int e * 100"
  have x0: "0 \<le> x" using assms by (simp add: x_def)
  have "min 100 \<lfloor>x\<rfloor> = \<lfloor>min 100 x\<rfloor>"
  proof (cases "x \<le> 100")
    case True
    then have "\<lfloor>x\<rfloor> \<le> 100" by (simp add: floor_le_iff)
    with True show ?thesis by simp
  next
    case False
    then have "100 \<le> \<lfloor>x\<rfloor>" by (simp add: le_floor_iff)
    with False show ?thesis by simp
  qed
  with False assms x0 show ?thesis
    by (simp add: pm_compliance_of_def spec_pm_compliance_def py_int_def x_def)
qed

lemma expected_pms_of_eq:
  "expected_pms_of r =
     (if eq_monthly_pm r = ''X'' then 12 else 0) + (if eq_annual_pm r = ''X'' then 1 else 0)"
  by (simp add: expected_pms_of_def Let_def)


section \<open>Properties of the health score\<close>

lemma select_equipment_None:
  "bfm_no \<notin> eq_bfm_equipment_no ` set (equipment db) \<Longrightarrow> select_equipment bfm_no db = None"
  by (auto simp: select_equipment_def find_None_iff)

lemma select_equipment_Some:
  "bfm_no \<in> eq_bfm_equipment_no ` set (equipment db) \<Longrightarrow> \<exists>r. select_equipment bfm_no db = Some r"
  by (cases "select_equipment bfm_no db") (auto simp: select_equipment_def find_None_iff)

text \<open>
  Claim C10. For an equipment number that is not in the equipment table, with a storage
  that answers the lookup, \<open>get_equipment_health_score\<close> raises nothing and returns the
  default metrics (score 0, compliance 0, frequency 0, labor hours 0, status 'Unknown',
  no recommendations); the lookup is the only statement it sends, and it neither
  commits nor rolls back.
\<close>

theorem unknown_equipment_default_metrics:
  assumes "bfm_no \<notin> eq_bfm_equipment_no ` set (equipment (pending w))"
      and "ops_left w \<noteq> Some 0"
  shows "\<exists>w'. get_equipment_health_score bfm_no now w =
           (w', Inr \<lparr>health_score = 0, pm_compliance = 0, cm_frequency = 0, downtime_days = 0,
                     parts_cost = 0, labor_hours = 0, status = ''Unknown'',
                     recommendations = [], parts_count = None\<rparr>)
         \<and> trace w' = trace w @ [Execute SELECT_equipment]
         \<and> pending w' = pending w \<and> committed w' = committed w"
proof -
  obtain w1 b where s: "send (Execute SELECT_equipment) w = (w1, b)"
    by (cases "send (Execute SELECT_equipment) w")
  have b: "b" using s assms(2)
    by (auto simp: send_def split: option.splits nat.splits)
  have k: "pending w1 = pending w \<and> committed w1 = committed w
           \<and> trace w1 = trace w @ [Execute SELECT_equipment]"
    using send_keeps [OF s] .
  have "get_equipment_health_score bfm_no now w = (w1, Inr default_metrics)"
    using s b k select_equipment_None [OF assms(1)]
    by (simp add: get_equipment_health_score_def health_score_body_def query_def)
  then show ?thesis using k by (simp add: default_metrics_def)
qed

theorem unknown_equipment_default_metrics_witness:
  "''EQ-9'' \<notin> eq_bfm_equipment_no ` set (equipment (pending scenario_D))
   \<and> ops_left scenario_D \<noteq> Some 0
   \<and> (\<exists>w'. get_equipment_health_score ''EQ-9'' today scenario_D =
           (w', Inr \<lparr>health_score = 0, pm_compliance = 0, cm_frequency = 0, downtime_days = 0,
                     parts_cost = 0, labor_hours = 0, status = ''Unknown'',
                     recommendations = [], parts_count = None\<rparr>)
         \<and> trace w' = [Execute SELECT_equipment])"
proof -
  have a: "''EQ-9'' \<notin> eq_bfm_equipment_no ` set (equipment (pending scenario_D))"
    by (simp add: scenario_D_def connect_def history_db_def)
  have b: "ops_left scenario_D \<noteq> Some 0"
    by (simp add: scenario_D_def connect_def)
  have c: "trace scenario_D = []"
    by (simp add: scenario_D_def connect_def)
  show ?thesis
    using a b c unknown_equipment_default_metrics [OF a b, of today] by auto
qed

lemma health_returned_range:
  assumes "get_equipment_health_score bfm_no now w = (w', Inr m)"
      and "select_equipment bfm_no (pending w) = Some r"
  shows "20 \<le> health_score m \<and> health_score m \<le> 100"
  using assms
  apply (simp add: get_equipment_health_score_def health_score_body_def query_def commit_def
        split: prod.splits sum.splits option.splits bool.splits)
  apply (auto dest!: send_keeps simp: Let_def health_score_of_range pm_compliance_of_range count_rows_nonneg)
  done

lemma health_score_returns:
  assumes "ops_left w = None"
      and "select_equipment bfm_no (pending w) = Some r"
      and "sub_days now 365 = Some d"
  shows "\<exists>w' m. get_equipment_health_score bfm_no now w = (w', Inr m)"
  using assms
  by (simp add: get_equipment_health_score_def health_score_body_def query_healthy
        commit_healthy emit_simps Let_def)

text \<open>
  Claim C9. For an equipment number that is in the equipment table, every health score
  that \<open>get_equipment_health_score\<close> returns lies between 20 and 100; and it does
  return one whenever the storage does not fail and the clock is past the first year.
\<close>

theorem health_score_between_20_and_100:
  assumes "bfm_no \<in> eq_bfm_equipment_no ` set (equipment (pending w))"
  shows "(\<forall>w' m. get_equipment_health_score bfm_no now w = (w', Inr m)
            \<longrightarrow> 20 \<le> health_score m \<and> health_score m \<le> 100)
       \<and> (ops_left w = None \<and> 365 < ymd2ord now
            \<longrightarrow> (\<exists>w' m. get_equipment_health_score bfm_no now w = (w', Inr m)))"
proof -
  obtain r where r: "select_equipment bfm_no (pending w) = Some r"
    using select_equipment_Some [OF assms] by blast
  have 1: "\<forall>w' m. get_equipment_health_score bfm_no now w = (w', Inr m)
            \<longrightarrow> 20 \<le> health_score m \<and> health_score m \<le> 100"
    using health_returned_range r by blast
  have 2: "ops_left w = None \<and> 365 < ymd2ord now
            \<longrightarrow> (\<exists>w' m. get_equipment_health_score bfm_no now w = (w', Inr m))"
  proof
    assume h: "ops_left w = None \<and> 365 < ymd2ord now"
    then have "sub_days now 365 = Some (ord2ymd (ymd2ord now - 365))"
      by (simp add: sub_days_def Let_def)
    with h r show "\<exists>w' m. get_equipment_health_score bfm_no now w = (w', Inr m)"
      using health_score_returns by blast
  qed
  from 1 2 show ?thesis by blast
qed

lemma today_ord: "ymd2ord today = 739417"
  by (simp add: today_def ymd2ord_def days_before_year_def days_before_month_def
      DAYS_BEFORE_MONTH_def is_leap_def Let_def)

theorem health_score_between_20_and_100_witness:
  "''EQ-1'' \<in> eq_bfm_equipment_no ` set (equipment (pending scenario_D))
   \<and> (\<exists>w' m. get_equipment_health_score ''EQ-1'' today scenario_D = (w', Inr m)
         \<and> 20 \<le> health_score m \<and> health_score m \<le> 100)"
proof -
  have a: "''EQ-1'' \<in> eq_bfm_equipment_no ` set (equipment (pending scenario_D))"
    by (simp add: scenario_D_def connect_def history_db_def)
  have b: "ops_left scenario_D = None \<and> 365 < ymd2ord today"
    by (simp add: scenario_D_def connect_def today_ord)
  show ?thesis
    using a b health_score_between_20_and_100 [OF a, of today] by blast
qed


lemma health_score_healthy:
  assumes "ops_left w = None"
      and "select_equipment bfm_no (pending w) = Some r"
      and "sub_days now 365 = Some d"
  shows "snd (get_equipment_health_score bfm_no now w) =
     Inr (default_metrics
       \<lparr>health_score := health_score_of
           (pm_compliance_of (count_rows (pm_since bfm_no d (pending w))) (expected_pms_of r))
           (cm_frequency_of (count_rows (cm_since bfm_no d (pending w)))) (eq_status r),
        pm_compliance := pm_compliance_of (count_rows (pm_since bfm_no d (pending w))) (expected_pms_of r),
        cm_frequency := cm_frequency_of (count_rows (cm_since bfm_no d (pending w))),
        labor_hours := sum_hours (map pm_labor_hours (pm_since bfm_no d (pending w)))
                     + sum_hours (map cm_labor_hours (cm_since bfm_no d (pending w))),
        status := eq_status r,
        recommendations := recommendations_of
           (pm_compliance_of (count_rows (pm_since bfm_no d (pending w))) (expected_pms_of r))
           (cm_frequency_of (count_rows (cm_since bfm_no d (pending w))))
           (count_rows (parts_requests_since bfm_no d (pending w))) (eq_status r),
        parts_count := Some (count_rows (parts_requests_since bfm_no d (pending w)))\<rparr>)"
  using assms
  by (simp add: get_equipment_health_score_def health_score_body_def query_healthy
        commit_healthy emit_simps Let_def)

lemma today_minus_365: "sub_days today 365 = Some \<lparr>year = 2024, month = 6, day = 15\<rparr>"
  by (simp add: today_def sub_days_def ymd2ord_def ord2ymd_def days_before_year_def
      days_before_month_def DAYS_BEFORE_MONTH_def DAYS_IN_MONTH_def is_leap_def Let_def)

lemma seven_of_thirteen_facts:
  "ops_left seven_of_thirteen = None"
  "select_equipment ''EQ-1'' (pending seven_of_thirteen) =
     Some \<lparr>eq_bfm_equipment_no = ''EQ-1'', eq_status = ''Active'', eq_monthly_pm = ''X'',
           eq_annual_pm = ''X''\<rparr>"
  "count_rows (pm_since ''EQ-1'' \<lparr>year = 2024, month = 6, day = 15\<rparr> (pending seven_of_thirteen)) = 7"
  "count_rows (cm_since ''EQ-1'' \<lparr>year = 2024, month = 6, day = 15\<rparr> (pending seven_of_thirteen)) = 0"
  by (simp_all add: seven_of_thirteen_def connect_def history_db_def select_equipment_def
        nine_completions_def pm_on_def pm_since_def cm_since_def count_rows_def date_le_def)

lemma cm_frequency_of_0: "cm_frequency_of 0 = 0"
  by (simp add: cm_frequency_of_def py_round1_def round_half_even_def)

lemma code_7_of_13:
  "pm_compliance_of 7 13 = 53" "health_score_of 53 0 ''Active'' = 85"
  by (simp_all add: pm_compliance_of_def health_score_of_def py_int_def Let_def)

lemma spec_7_of_13: "spec_health_score (spec_pm_compliance 7 13) 0 ''Active'' = 86"
  by (simp add: spec_health_score_def spec_pm_compliance_def py_int_def)

text \<open>
  Claim C7, as stated, fails: with monthly and annual PM (13 expected) and 7 completions,
  no corrective event and status Active, the specification's formula gives 86, while the
  code truncates the compliance to 53 first and returns 85.
\<close>

theorem health_score_formula_counterexample:
  "(\<exists>w' m. get_equipment_health_score ''EQ-1'' today seven_of_thirteen = (w', Inr m)
       \<and> pm_compliance m = 53 \<and> cm_frequency m = 0 \<and> status m = ''Active''
       \<and> health_score m = 85)
   \<and> spec_health_score (spec_pm_compliance 7 13) 0 ''Active'' = 86"
proof -
  have "snd (get_equipment_health_score ''EQ-1'' today seven_of_thirteen) = Inr
     (default_metrics\<lparr>health_score := 85, pm_compliance := 53, cm_frequency := 0,
        labor_hours := sum_hours (map pm_labor_hours (pm_since ''EQ-1'' \<lparr>year = 2024, month = 6, day = 15\<rparr> (pending seven_of_thirteen)))
                     + sum_hours (map cm_labor_hours (cm_since ''EQ-1'' \<lparr>year = 2024, month = 6, day = 15\<rparr> (pending seven_of_thirteen))),
        status := ''Active'',
        recommendations := recommendations_of 53 0
           (count_rows (parts_requests_since ''EQ-1'' \<lparr>year = 2024, month = 6, day = 15\<rparr> (pending seven_of_thirteen))) ''Active'',
        parts_count := Some (count_rows (parts_requests_since ''EQ-1'' \<lparr>year = 2024, month = 6, day = 15\<rparr> (pending seven_of_thirteen)))\<rparr>)"
    using health_score_healthy [OF seven_of_thirteen_facts(1) seven_of_thirteen_facts(2) today_minus_365]
    by (simp add: seven_of_thirteen_facts expected_pms_of_eq cm_frequency_of_0 code_7_of_13)
  then have "\<exists>w' m. get_equipment_health_score ''EQ-1'' today seven_of_thirteen = (w', Inr m)
       \<and> pm_compliance m = 53 \<and> cm_frequency m = 0 \<and> status m = ''Active''
       \<and> health_score m = 85"
    by (cases "get_equipment_health_score ''EQ-1'' today seven_of_thirteen") simp
  with spec_7_of_13 show ?thesis by blast
qed


lemma scenario_D_recommendations:
  "pcount \<le> 20 \<Longrightarrow>
   recommendations_of 75 0 pcount ''Active'' = [''Improve PM compliance - currently below 80%'']"
  by (simp add: recommendations_of_def)

lemma scenario_D_values:
  "pm_compliance_of 9 12 = 75" "health_score_of 75 0 ''Active'' = 92"
  by (simp_all add: pm_compliance_of_def health_score_of_def py_int_def Let_def)

text \<open>
  Claim C7, amended. With a storage that does not fail, the metrics returned for a known
  equipment have \<open>pm_compliance\<close> equal to the specification's compliance
  \<open>min(100, completed / expected * 100)\<close> (0 when nothing is expected) truncated to an
  integer, \<open>cm_frequency\<close> equal to the corrective events divided by 12 and rounded to
  one decimal, and \<open>health_score\<close> equal to the specification's formula applied to that
  integer compliance. In Scenario D (monthly PM only, 9 completions, no corrective event,
  status Active, at most 20 parts requests) this is compliance 75, frequency 0, score 92
  and the single recommendation to improve PM compliance.
\<close>

theorem health_score_formula:
  assumes "ops_left w = None"
      and "select_equipment bfm_no (pending w) = Some r"
      and "sub_days now 365 = Some d"
  shows "\<exists>w' m. get_equipment_health_score bfm_no now w = (w', Inr m)
      \<and> pm_compliance m =
          py_int (spec_pm_compliance (count_rows (pm_since bfm_no d (pending w)))
                   ((if eq_monthly_pm r = ''X'' then 12 else 0)
                    + (if eq_annual_pm r = ''X'' then 1 else 0)))
      \<and> cm_frequency m = py_round1 (real_of_int (count_rows (cm_since bfm_no d (pending w))) / 12)
      \<and> health_score m =
          spec_health_score (real_of_int (pm_compliance m)) (cm_frequency m) (eq_status r)
      \<and> (eq_monthly_pm r = ''X'' \<and> eq_annual_pm r \<noteq> ''X'' \<and> eq_status r = ''Active''
          \<and> count_rows (pm_since bfm_no d (pending w)) = 9
          \<and> count_rows (cm_since bfm_no d (pending w)) = 0
          \<and> count_rows (parts_requests_since bfm_no d (pending w)) \<le> 20
          \<longrightarrow> pm_compliance m = 75 \<and> cm_frequency m = 0 \<and> health_score m = 92
              \<and> recommendations m = [''Improve PM compliance - currently below 80%''])"
proof -
  define c where "c = count_rows (pm_since bfm_no d (pending w))"
  define k where "k = count_rows (cm_since bfm_no d (pending w))"
  define p where "p = count_rows (parts_requests_since bfm_no d (pending w))"
  define e where "e = (if eq_monthly_pm r = ''X'' then 12 else 0)
                    + (if eq_annual_pm r = ''X'' then (1::int) else 0)"
  define m where "m = default_metrics
       \<lparr>health_score := health_score_of (pm_compliance_of c e) (cm_frequency_of k) (eq_status r),
        pm_compliance := pm_compliance_of c e,
        cm_frequency := cm_frequency_of k,
        labor_hours := sum_hours (map pm_labor_hours (pm_since bfm_no d (pending w)))
                     + sum_hours (map cm_labor_hours (cm_since bfm_no d (pending w))),
        status := eq_status r,
        recommendations := recommendations_of (pm_compliance_of c e) (cm_frequency_of k) p (eq_status r),
        parts_count := Some p\<rparr>"
  have c0: "0 \<le> c" by (simp add: c_def count_rows_nonneg)
  have e0: "0 \<le> e" by (simp add: e_def)
  have run: "snd (get_equipment_health_score bfm_no now w) = Inr m"
    using health_score_healthy [OF assms]
    by (simp add: m_def c_def k_def p_def e_def expected_pms_of_eq)
  have pmc: "pm_compliance m = py_int (spec_pm_compliance c e)"
    using pm_compliance_of_spec [OF c0 e0] by (simp add: m_def)
  have cmf: "cm_frequency m = py_round1 (real_of_int k / 12)"
    by (simp add: m_def cm_frequency_of_def)
  have hs: "health_score m = spec_health_score (real_of_int (pm_compliance m)) (cm_frequency m) (eq_status r)"
    using pm_compliance_of_range [OF c0, of e] health_score_of_spec
    by (simp add: m_def)
  have sc: "eq_monthly_pm r = ''X'' \<and> eq_annual_pm r \<noteq> ''X'' \<and> eq_status r = ''Active''
          \<and> c = 9 \<and> k = 0 \<and> p \<le> 20
          \<longrightarrow> pm_compliance m = 75 \<and> cm_frequency m = 0 \<and> health_score m = 92
              \<and> recommendations m = [''Improve PM compliance - currently below 80%'']"
    by (simp add: m_def e_def scenario_D_values cm_frequency_of_0 scenario_D_recommendations)
  have "get_equipment_health_score bfm_no now w = (fst (get_equipment_health_score bfm_no now w), Inr m)"
    using run by (cases "get_equipment_health_score bfm_no now w") simp
  with pmc cmf hs sc show ?thesis
    unfolding c_def k_def p_def e_def by blast
qed

lemma scenario_D_facts:
  "ops_left scenario_D = None"
  "select_equipment ''EQ-1'' (pending scenario_D) =
     Some \<lparr>eq_bfm_equipment_no = ''EQ-1'', eq_status = ''Active'', eq_monthly_pm = ''X'',
           eq_annual_pm = ''''\<rparr>"
  "count_rows (pm_since ''EQ-1'' \<lparr>year = 2024, month = 6, day = 15\<rparr> (pending scenario_D)) = 9"
  "count_rows (cm_since ''EQ-1'' \<lparr>year = 2024, month = 6, day = 15\<rparr> (pending scenario_D)) = 0"
  "count_rows (parts_requests_since ''EQ-1'' \<lparr>year = 2024, month = 6, day = 15\<rparr> (pending scenario_D)) = 0"
  by (simp_all add: scenario_D_def connect_def history_db_def select_equipment_def
        nine_completions_def pm_on_def pm_since_def cm_since_def parts_requests_since_def
        count_rows_def date_le_def)

theorem health_score_formula_witness:
  "ops_left scenario_D = None
   \<and> select_equipment ''EQ-1'' (pending scenario_D) =
       Some \<lparr>eq_bfm_equipment_no = ''EQ-1'', eq_status = ''Active'', eq_monthly_pm = ''X'',
             eq_annual_pm = ''''\<rparr>
   \<and> sub_days today 365 = Some \<lparr>year = 2024, month = 6, day = 15\<rparr>
   \<and> (\<exists>w' m. get_equipment_health_score ''EQ-1'' today scenario_D = (w', Inr m)
         \<and> pm_compliance m = 75 \<and> cm_frequency m = 0 \<and> health_score m = 92
         \<and> recommendations m = [''Improve PM compliance - currently below 80%''])"
  using health_score_formula [OF scenario_D_facts(1) scenario_D_facts(2) today_minus_365]
        scenario_D_facts today_minus_365
  by auto


section \<open>Properties of the trends\<close>

lemma labels_of_31_march:
  "month_labels \<lparr>year = 2025, month = 3, day = 31\<rparr> [0..<3] [] =
     Inr [''2025-01'', ''2025-03'', ''2025-03'']"
  by code_simp

lemma year_mon_labels:
  "year_mon ''2025-01'' = Some (2025, 1)" "year_mon ''2025-03'' = Some (2025, 3)"
  by code_simp+

lemma scenario_D_buckets:
  "ops_left scenario_D = None"
  "count_rows (pm_between ''EQ-1'' \<lparr>year = 2025, month = 1, day = 1\<rparr>
       \<lparr>year = 2025, month = 2, day = 1\<rparr> (pending scenario_D)) = 1"
  "count_rows (pm_between ''EQ-1'' \<lparr>year = 2025, month = 3, day = 1\<rparr>
       \<lparr>year = 2025, month = 4, day = 1\<rparr> (pending scenario_D)) = 1"
  "count_rows (cm_between ''EQ-1'' lo hi (pending scenario_D)) = 0"
  by (simp_all add: scenario_D_def connect_def history_db_def nine_completions_def pm_on_def
        pm_between_def cm_between_def count_rows_def date_le_def date_less_def)

text \<open>
  Claim C8 asks for consecutive calendar months. The labels are taken 30 days apart
  instead: on 31 March 2025, three months give January, March and March. February is
  never counted and March is counted twice (the example has one completion on the first
  of each of the three months).
\<close>

theorem trends_of_31_march_skip_february:
  "\<exists>w' t. get_maintenance_trends ''EQ-1'' 3 \<lparr>year = 2025, month = 3, day = 31\<rparr> scenario_D
             = (w', Inr t)
      \<and> months t = [''2025-01'', ''2025-03'', ''2025-03'']
      \<and> monthly_pm_counts t = [1, 1, 1]"
proof -
  have "\<exists>t. snd (get_maintenance_trends ''EQ-1'' 3 \<lparr>year = 2025, month = 3, day = 31\<rparr> scenario_D)
          = Inr t
      \<and> months t = [''2025-01'', ''2025-03'', ''2025-03'']
      \<and> monthly_pm_counts t = [1, 1, 1]"
    by (simp add: get_maintenance_trends_def trends_body_def labels_of_31_march year_mon_labels
          query_healthy commit_healthy emit_simps scenario_D_buckets empty_trends_def Let_def)
  then show ?thesis
    by (cases "get_maintenance_trends ''EQ-1'' 3 \<lparr>year = 2025, month = 3, day = 31\<rparr> scenario_D") auto
qed


section \<open>Properties of the consumption dialog\<close>

lemma notify_keeps:
  "pending (notify d b w) = pending w" "committed (notify d b w) = committed w"
  "ops_left (notify d b w) = ops_left w"
  "trace (notify d b w) = trace w @ (if callback d then [Callback b] else [])"
  by (simp_all add: notify_def emit_simps)

text \<open>
  Claim C6, as stated, fails: with an empty list the dialog first asks for confirmation,
  and on the answer No it returns without accepting and without calling the callback.
\<close>

theorem save_empty_list_declined_counterexample:
  "consumed_parts dialog_A = [] \<and> callback dialog_A
   \<and> save_and_close dialog_A No scenario_A
       = (Declined, scenario_A\<lparr>trace := [MessageBox Question ''Confirm'']\<rparr>)"
  by (simp add: dialog_A_def init_dialog_def load_parts_data_def query_def send_def emit_def
        scenario_A_def connect_def save_and_close_def Let_def)

text \<open>
  Claim C6, amended. With an empty list \<open>save_and_close\<close> sends nothing to the storage
  and raises nothing; it asks for confirmation, and on Yes the dialog is accepted and
  the callback, when one was passed, receives True, while on No nothing more happens.
\<close>

theorem save_empty_list_no_write:
  assumes "consumed_parts d = []"
  shows "\<exists>w'. save_and_close d answer w =
            (if answer = Yes then ClosedWithoutParts else Declined, w')
         \<and> pending w' = pending w \<and> committed w' = committed w \<and> ops_left w' = ops_left w
         \<and> trace w' = trace w @ MessageBox Question ''Confirm''
              # (if answer = Yes
                 then Accept # (if callback d then [Callback True] else [])
                 else [])"
  using assms
  by (cases answer) (simp_all add: save_and_close_def Let_def notify_keeps emit_simps)

theorem save_empty_list_no_write_witness:
  "consumed_parts dialog_A = []
   \<and> (\<exists>w'. save_and_close dialog_A Yes scenario_A = (ClosedWithoutParts, w')
         \<and> pending w' = pending scenario_A \<and> committed w' = committed scenario_A
         \<and> trace w' = [MessageBox Question ''Confirm'', Accept, Callback True])"
proof -
  have a: "consumed_parts dialog_A = []"
    by (simp add: dialog_A_def init_dialog_def load_parts_data_def query_def send_def emit_def
        scenario_A_def connect_def)
  have b: "callback dialog_A"
    by (simp add: dialog_A_def init_dialog_def load_parts_data_def query_def send_def emit_def
        scenario_A_def connect_def)
  have c: "trace scenario_A = []" by (simp add: scenario_A_def connect_def)
  show ?thesis
    using a b c save_empty_list_no_write [OF a, of Yes scenario_A] by auto
qed

lemma list_ex_part_number:
  "list_ex (\<lambda>p. cp_part_number p = pn) ps \<longleftrightarrow> pn \<in> set (map cp_part_number ps)"
  by (induction ps) auto

lemma add_consumed_part_duplicate:
  assumes "list_ex (\<lambda>p. cp_part_number p = row_part_number item) (consumed_parts d)"
  shows "snd (add_consumed_part d (item # others) qty) = d"
    and "fst (add_consumed_part d (item # others) qty) \<noteq> Added pn"
  using assms
  by (auto simp: add_consumed_part_def Let_def split: option.splits)

lemma add_consumed_part_distinct:
  assumes "distinct (map cp_part_number (consumed_parts d))"
  shows "distinct (map cp_part_number (consumed_parts (snd (add_consumed_part d sel qty))))"
  using assms
  by (auto simp: add_consumed_part_def Let_def list_ex_part_number
           split: list.splits option.splits)

lemma remove_consumed_part_distinct:
  assumes "distinct (map cp_part_number (consumed_parts d))"
  shows "distinct (map cp_part_number (consumed_parts (remove_consumed_part d sel)))"
  using assms
  by (auto simp: remove_consumed_part_def distinct_map_filter split: list.splits)

lemma shown_no_storage: "list_all (\<lambda>e. \<not> to_storage e) (shown out)"
  by (cases out) (simp_all add: shown_def to_storage_def)

lemma do_action_no_storage:
  "\<exists>d' boxes. do_action act (d, w) = (d', w\<lparr>trace := trace w @ boxes\<rparr>)
       \<and> list_all (\<lambda>e. \<not> to_storage e) boxes"
proof (cases act)
  case (AddPart sel qty)
  obtain out d' where a: "add_consumed_part d (selected (all_parts_data d) sel) qty = (out, d')"
    by (cases "add_consumed_part d (selected (all_parts_data d) sel) qty")
  show ?thesis using AddPart a shown_no_storage [of out] by auto
next
  case (RemovePart sel)
  show ?thesis
  proof (cases "selected (consumed_parts d) sel")
    case Nil
    with RemovePart show ?thesis
      by (auto simp: emit_def to_storage_def intro!: exI [of _ "[MessageBox Warning ''Warning'']"])
  next
    case (Cons x xs)
    with RemovePart show ?thesis
      by (auto intro!: exI [of _ "[]"])
  qed
qed

lemma do_action_distinct:
  assumes "distinct (map cp_part_number (consumed_parts (fst s)))"
  shows "distinct (map cp_part_number (consumed_parts (fst (do_action act s))))"
proof (cases s)
  case (Pair d w)
  show ?thesis
  proof (cases act)
    case (AddPart sel qty)
    then show ?thesis
      using Pair assms add_consumed_part_distinct [of d "selected (all_parts_data d) sel" qty]
      by (auto split: prod.splits)
  next
    case (RemovePart sel)
    then show ?thesis
      using Pair assms remove_consumed_part_distinct [of d]
      by (auto split: list.splits)
  qed
qed

lemma do_actions_distinct:
  "distinct (map cp_part_number (consumed_parts (fst s)))
   \<Longrightarrow> distinct (map cp_part_number (consumed_parts (fst (do_actions acts s))))"
  unfolding do_actions_def
proof (induction acts arbitrary: s)
  case Nil
  then show ?case by simp
next
  case (Cons a acts)
  have "distinct (map cp_part_number (consumed_parts (fst (do_action a s))))"
    using do_action_distinct [OF Cons.prems] .
  from Cons.IH [OF this] show ?case by simp
qed

lemma dialog_A_eq:
  "dialog_A = \<lparr>cm_number = ''CM-001'', technician_name = ''J.Smith'', callback = True,
      consumed_parts = [],
      all_parts_data = [brg_100,
         \<lparr>row_part_number = ''SEAL-7'', row_name = ''Bearing'', row_location = ''A1'',
          row_quantity_in_stock = Some (Number 0)\<rparr>]\<rparr>"
  by (simp add: dialog_A_def init_dialog_def load_parts_data_def query_def send_def emit_def
        scenario_A_def connect_def stock_db_def part_def select_active_parts_def brg_100_def)

lemma dialog_C_eq:
  "dialog_C = dialog_A\<lparr>consumed_parts :=
      [\<lparr>cp_part_number = ''BRG-100'', cp_description = ''Bearing'',
        cp_quantity = Number 3\<rparr>]\<rparr>"
  by (simp add: dialog_C_def dialog_A_eq selected_def add_consumed_part_def brg_100_def Let_def)

lemma to_storage_simps:
  "to_storage (Execute s)" "to_storage Commit" "\<not> to_storage Rollback"
  "\<not> to_storage (MessageBox b t)" "\<not> to_storage Accept" "\<not> to_storage (Callback c)"
  by (simp_all add: to_storage_def)

lemma send_ops:
  "send e w = (w', b) \<Longrightarrow> ops_left w = None \<Longrightarrow> ops_left w' = None \<and> b"
  by (auto simp: send_def emit_def)

lemma query_keeps:
  assumes "query s f w = (w', r)"
  shows "pending w' = pending w" "committed w' = committed w"
        "trace w' = trace w @ [Execute s]" "r = Inr x \<Longrightarrow> x = f (pending w)"
proof -
  obtain w1 b where s: "send (Execute s) w = (w1, b)" by (cases "send (Execute s) w")
  have k: "pending w1 = pending w \<and> committed w1 = committed w \<and> trace w1 = trace w @ [Execute s]"
    using send_keeps [OF s] .
  have w: "w' = w1" using assms s by (cases b) (simp_all add: query_def)
  show "pending w' = pending w" "committed w' = committed w" "trace w' = trace w @ [Execute s]"
    using k w by simp_all
  show "r = Inr x \<Longrightarrow> x = f (pending w)"
    using assms s k by (cases b) (auto simp: query_def)
qed

lemma statement_keeps:
  assumes "statement s f w = (w', r)"
  shows "committed w' = committed w" "trace w' = trace w @ [Execute s]"
        "r = None \<Longrightarrow> f (pending w) = Inr (pending w')"
proof -
  obtain w1 b where s: "send (Execute s) w = (w1, b)" by (cases "send (Execute s) w")
  have k: "pending w1 = pending w \<and> committed w1 = committed w \<and> trace w1 = trace w @ [Execute s]"
    using send_keeps [OF s] .
  show "committed w' = committed w" "trace w' = trace w @ [Execute s]"
    using assms s k by (cases b; cases "f (pending w)"; auto simp: statement_def)+
  show "r = None \<Longrightarrow> f (pending w) = Inr (pending w')"
    using assms s k by (cases b; cases "f (pending w)"; auto simp: statement_def)
qed

lemma commit_keeps:
  assumes "commit w = (w', b)"
  shows "trace w' = trace w @ [Commit]" "pending w' = pending w"
        "committed w' = (if b then pending w else committed w)"
proof -
  obtain w1 c where s: "send Commit w = (w1, c)" by (cases "send Commit w")
  have k: "pending w1 = pending w \<and> committed w1 = committed w \<and> trace w1 = trace w @ [Commit]"
    using send_keeps [OF s] .
  show "trace w' = trace w @ [Commit]" "pending w' = pending w"
       "committed w' = (if b then pending w else committed w)"
    using assms s k by (cases c; auto simp: commit_def)+
qed

lemma record_parts_keeps:
  "record_parts d ps w = (w', r) \<Longrightarrow>
   committed w' = committed w
   \<and> (\<exists>sent. trace w' = trace w @ sent \<and> list_all to_storage sent)"
proof (induction ps arbitrary: w)
  case Nil
  then show ?case by simp
next
  case (Cons p rest)
  obtain w1 r1 where q: "query SELECT_unit_price (select_unit_price (cp_part_number p)) w = (w1, r1)"
    by (cases "query SELECT_unit_price (select_unit_price (cp_part_number p)) w")
  note kq = query_keeps(2,3) [OF q]
  show ?case
  proof (cases r1)
    case (Inl e)
    with Cons.prems q kq show ?thesis by (auto simp: to_storage_simps)
  next
    case (Inr result)
    define t where "t = \<lparr>txn_part_number = cp_part_number p, txn_transaction_type = ''Issue'',
      txn_quantity = f_neg (cp_quantity p), txn_technician_name = technician_name d,
      txn_notes = ''CM Work Order: '' @ cm_number d\<rparr>"
    define u where "u = \<lparr>used_cm_number = cm_number d, used_part_number = cp_part_number p,
      used_quantity_used = cp_quantity p,
      used_total_cost = f_mul (unit_price_of result) (cp_quantity p),
      used_recorded_by = technician_name d,
      used_notes = ''Parts consumed during CM '' @ cm_number d\<rparr>"
    obtain w2 r2 where s2: "statement INSERT_stock_transaction (insert_stock_transaction t) w1 = (w2, r2)"
      by (cases "statement INSERT_stock_transaction (insert_stock_transaction t) w1")
    note k2 = statement_keeps(1,2) [OF s2]
    show ?thesis
    proof (cases r2)
      case (Some e)
      with Cons.prems q Inr s2 kq k2 show ?thesis
        by (auto simp: to_storage_simps t_def Let_def)
    next
      case None
      obtain w3 r3 where s3: "statement INSERT_cm_parts_used (insert_cm_parts_used u) w2 = (w3, r3)"
        by (cases "statement INSERT_cm_parts_used (insert_cm_parts_used u) w2")
      note k3 = statement_keeps(1,2) [OF s3]
      show ?thesis
      proof (cases r3)
        case (Some e)
        with Cons.prems q Inr s2 None s3 kq k2 k3 show ?thesis
          by (auto simp: to_storage_simps t_def u_def Let_def)
      next
        case n3: None
        obtain w4 r4 where s4: "statement UPDATE_inventory_quantity
            (update_inventory_quantity (cp_part_number p) (cp_quantity p)) w3 = (w4, r4)"
          by (cases "statement UPDATE_inventory_quantity
            (update_inventory_quantity (cp_part_number p) (cp_quantity p)) w3")
        note k4 = statement_keeps(1,2) [OF s4]
        show ?thesis
        proof (cases r4)
          case (Some e)
          with Cons.prems q Inr s2 None s3 n3 s4 kq k2 k3 k4 show ?thesis
            by (auto simp: to_storage_simps t_def u_def Let_def)
        next
          case n4: None
          have rest: "record_parts d rest w4 = (w', r)"
            using Cons.prems q Inr s2 None s3 n3 s4 n4 by (simp add: t_def u_def Let_def)
          from Cons.IH [OF rest] obtain sent where
            "committed w' = committed w4" "trace w' = trace w4 @ sent" "list_all to_storage sent"
            by blast
          with kq k2 k3 k4 show ?thesis
            by (auto simp: to_storage_simps)
        qed
      qed
    qed
  qed
qed

lemma record_parts_step:
  assumes "record_parts d (p # rest) w = (w', None)"
  shows "\<exists>w4. record_parts d rest w4 = (w', None)
           \<and> pending w4 = recorded d [p] (pending w)
           \<and> has_part (cp_part_number p) (pending w)"
proof -
  obtain w1 r1 where q: "query SELECT_unit_price (select_unit_price (cp_part_number p)) w = (w1, r1)"
    by (cases "query SELECT_unit_price (select_unit_price (cp_part_number p)) w")
  obtain result where r1: "r1 = Inr result"
    using assms q by (cases r1) auto
  have res: "result = select_unit_price (cp_part_number p) (pending w)"
    using query_keeps(4) [OF q r1] .
  have p1: "pending w1 = pending w" using query_keeps(1) [OF q] .
  define t where "t = issue_of d p"
  define u where "u = usage_of d p (unit_price_of result)"
  obtain w2 r2 where s2: "statement INSERT_stock_transaction (insert_stock_transaction t) w1 = (w2, r2)"
    by (cases "statement INSERT_stock_transaction (insert_stock_transaction t) w1")
  have r2: "r2 = None"
    using assms q r1 s2 by (cases r2) (auto simp: t_def issue_of_def Let_def)
  obtain w3 r3 where s3: "statement INSERT_cm_parts_used (insert_cm_parts_used u) w2 = (w3, r3)"
    by (cases "statement INSERT_cm_parts_used (insert_cm_parts_used u) w2")
  have r3: "r3 = None"
    using assms q r1 s2 r2 s3
    by (cases r3) (auto simp: t_def u_def issue_of_def usage_of_def Let_def)
  obtain w4 r4 where s4: "statement UPDATE_inventory_quantity
      (update_inventory_quantity (cp_part_number p) (cp_quantity p)) w3 = (w4, r4)"
    by (cases "statement UPDATE_inventory_quantity
      (update_inventory_quantity (cp_part_number p) (cp_quantity p)) w3")
  have r4: "r4 = None"
    using assms q r1 s2 r2 s3 r3 s4
    by (cases r4) (auto simp: t_def u_def issue_of_def usage_of_def Let_def)
  have rest: "record_parts d rest w4 = (w', None)"
    using assms q r1 s2 r2 s3 r3 s4 r4
    by (simp add: t_def u_def issue_of_def usage_of_def Let_def)
  have e2: "insert_stock_transaction t (pending w) = Inr (pending w2)"
    using statement_keeps(3) [OF s2 r2] p1 by simp
  have hp: "has_part (cp_part_number p) (pending w)"
    using e2 by (auto simp: insert_stock_transaction_def t_def issue_of_def split: if_splits)
  have d2: "pending w2 = (pending w)\<lparr>mro_stock_transactions :=
              mro_stock_transactions (pending w) @ [t]\<rparr>"
    using e2 by (auto simp: insert_stock_transaction_def split: if_splits)
  have e3: "insert_cm_parts_used u (pending w2) = Inr (pending w3)"
    using statement_keeps(3) [OF s3 r3] .
  have d3: "pending w3 = (pending w2)\<lparr>cm_parts_used := cm_parts_used (pending w2) @ [u]\<rparr>"
    using e3 by (auto simp: insert_cm_parts_used_def split: if_splits)
  have e4: "update_inventory_quantity (cp_part_number p) (cp_quantity p) (pending w3)
              = Inr (pending w4)"
    using statement_keeps(3) [OF s4 r4] .
  have d4: "pending w4 = (pending w3)\<lparr>mro_inventory :=
              map (decrement (cp_part_number p) (cp_quantity p)) (mro_inventory (pending w3))\<rparr>"
    using e4 by (auto simp: update_inventory_quantity_def)
  have "pending w4 = recorded d [p] (pending w)"
    by (simp add: d4 d3 d2 t_def u_def res)
  with rest hp show ?thesis by blast
qed

lemma recorded_Cons: "recorded d (p # rest) db = recorded d rest (recorded d [p] db)"
  by simp

lemma record_parts_recorded:
  "record_parts d ps w = (w', None) \<Longrightarrow> pending w' = recorded d ps (pending w)"
proof (induction ps arbitrary: w)
  case Nil
  then show ?case by simp
next
  case (Cons p rest)
  from record_parts_step [OF Cons.prems] obtain w4 where
    a: "record_parts d rest w4 = (w', None)" and b: "pending w4 = recorded d [p] (pending w)"
    by blast
  have "pending w' = recorded d rest (pending w4)" using Cons.IH [OF a] .
  then show ?case using b by (simp only: recorded_Cons [of d p rest])
qed

lemma add_consumed_part_guards:
  assumes "list_ex (\<lambda>p. cp_part_number p = row_part_number item) (consumed_parts d)"
      and "row_quantity_in_stock item = Some a"
  shows "add_consumed_part d (item # others) (Some q) =
           (if f_le q (Number 0) then QuantityNotPositive
            else if f_le a (Number 0) then OutOfStock (row_part_number item) a
            else if f_less a q then InsufficientStock q a (row_part_number item)
            else AlreadyInList, d)"
  using assms
  by (simp add: add_consumed_part_def Let_def)

text \<open>
  Claim C5, as stated, fails: a second entry for a part that is already in the list is
  not always refused as a duplicate. The quantity and stock checks come first, so with
  3 of BRG-100 in the list and 10 available, a second entry of 15 is refused for
  insufficient stock.
\<close>

theorem duplicate_over_stock_counterexample:
  "list_ex (\<lambda>p. cp_part_number p = row_part_number brg_100) (consumed_parts dialog_C)
   \<and> add_consumed_part dialog_C [brg_100] (Some (Number 15))
       = (InsufficientStock (Number 15) (Number 10) ''BRG-100'', dialog_C)"
  by (simp add: dialog_C_eq dialog_A_eq brg_100_def add_consumed_part_def Let_def)

text \<open>
  Claim C5, amended. Adding a part that is already in the pending list is refused when
  it is added and leaves the list as it was. The refusal is the one of the first guard
  that fires: quantity not positive, out of stock, insufficient stock, and only then
  the duplicate warning. No action of the dialog before the save sends anything to the
  storage or changes the stored state: it only shows message boxes. So the pending list
  never holds the same part number twice.
\<close>

theorem duplicate_part_refused:
  "(list_ex (\<lambda>p. cp_part_number p = row_part_number item) (consumed_parts d)
      \<longrightarrow> snd (add_consumed_part d (item # others) qty) = d
          \<and> (\<forall>pn. fst (add_consumed_part d (item # others) qty) \<noteq> Added pn)
          \<and> (\<forall>q a. qty = Some q \<and> row_quantity_in_stock item = Some a
                \<longrightarrow> fst (add_consumed_part d (item # others) qty)
                    = (if f_le q (Number 0) then QuantityNotPositive
                       else if f_le a (Number 0) then OutOfStock (row_part_number item) a
                       else if f_less a q then InsufficientStock q a (row_part_number item)
                       else AlreadyInList)))
   \<and> (\<exists>d' boxes. do_action act (d, w) = (d', w\<lparr>trace := trace w @ boxes\<rparr>)
         \<and> list_all (\<lambda>e. \<not> to_storage e) boxes)
   \<and> (distinct (map cp_part_number (consumed_parts d))
      \<longrightarrow> distinct (map cp_part_number (consumed_parts (fst (do_actions acts (d, w))))))"
  using add_consumed_part_duplicate [of item d others qty]
        add_consumed_part_guards [of item d _ others]
        do_action_no_storage [of act d w] do_actions_distinct [of "(d, w)" acts]
  by auto

theorem duplicate_part_refused_witness:
  "list_ex (\<lambda>p. cp_part_number p = row_part_number brg_100) (consumed_parts dialog_C)
   \<and> distinct (map cp_part_number (consumed_parts dialog_C))
   \<and> add_consumed_part dialog_C [brg_100] (Some (Number 2)) = (AlreadyInList, dialog_C)
   \<and> map cp_part_number (consumed_parts dialog_C) = [''BRG-100'']"
proof -
  have a: "list_ex (\<lambda>p. cp_part_number p = row_part_number brg_100) (consumed_parts dialog_C)"
    by (simp add: dialog_C_eq brg_100_def)
  have b: "row_quantity_in_stock brg_100 = Some (Number 10)" by (simp add: brg_100_def)
  have c: "map cp_part_number (consumed_parts dialog_C) = [''BRG-100'']"
    by (simp add: dialog_C_eq)
  have "snd (add_consumed_part dialog_C [brg_100] (Some (Number 2))) = dialog_C
        \<and> fst (add_consumed_part dialog_C [brg_100] (Some (Number 2))) = AlreadyInList"
    using a b duplicate_part_refused [of brg_100 dialog_C "[]" "Some (Number 2)"] by auto
  then have "add_consumed_part dialog_C [brg_100] (Some (Number 2)) = (AlreadyInList, dialog_C)"
    by (cases "add_consumed_part dialog_C [brg_100] (Some (Number 2))") simp
  with a c show ?thesis by simp
qed

lemma rollback_keeps:
  "committed (rollback w) = committed w" "pending (rollback w) = committed w"
  "trace (rollback w) = trace w @ [Rollback]"
  by (simp_all add: rollback_def emit_def)

lemma save_recorded:
  assumes "save_and_close d answer w = (Recorded n, w')"
  shows "n = length (consumed_parts d)"
    and "committed w' = recorded d (consumed_parts d) (pending w)"
    and "pending w' = committed w'"
    and "\<exists>sent. trace w' = trace w @ sent @ Commit # MessageBox Information ''Success'' # Accept
                    # (if callback d then [Callback True] else [])
              \<and> list_all to_storage sent"
proof -
  have ne: "consumed_parts d \<noteq> []"
    using assms by (auto simp: save_and_close_def Let_def split: if_splits)
  obtain w1 r where rp: "record_parts d (consumed_parts d) w = (w1, r)"
    by (cases "record_parts d (consumed_parts d) w")
  have r: "r = None"
    using assms ne rp by (cases r) (auto simp: save_and_close_def save_failed_def)
  obtain w2 b where c: "commit w1 = (w2, b)" by (cases "commit w1")
  have b: "b" using assms ne rp r c by (cases b) (auto simp: save_and_close_def save_failed_def)
  have w': "w' = notify d True (emit Accept (emit (MessageBox Information ''Success'') w2))"
    and n: "n = length (consumed_parts d)"
    using assms ne rp r c b by (auto simp: save_and_close_def)
  show "n = length (consumed_parts d)" using n .
  have p1: "pending w1 = recorded d (consumed_parts d) (pending w)"
    using record_parts_recorded rp r by blast
  have c2: "committed w2 = pending w1" "pending w2 = pending w1" "trace w2 = trace w1 @ [Commit]"
    using commit_keeps [OF c] b by simp_all
  show "committed w' = recorded d (consumed_parts d) (pending w)"
    by (simp add: w' notify_keeps emit_simps c2 p1)
  show "pending w' = committed w'"
    by (simp add: w' notify_keeps emit_simps c2)
  from record_parts_keeps [OF rp] obtain sent where
    s: "trace w1 = trace w @ sent" "list_all to_storage sent" by blast
  have "trace w' = trace w @ sent @ Commit # MessageBox Information ''Success'' # Accept
                    # (if callback d then [Callback True] else [])"
    by (simp add: w' notify_keeps emit_simps c2 s)
  with s show "\<exists>sent. trace w' = trace w @ sent @ Commit # MessageBox Information ''Success'' # Accept
                    # (if callback d then [Callback True] else [])
              \<and> list_all to_storage sent" by blast
qed

lemma save_failed_rolled_back:
  assumes "save_and_close d answer w = (Failed e, w')"
  shows "committed w' = committed w" and "pending w' = committed w"
    and "\<exists>sent. trace w' = trace w @ sent @ Rollback # MessageBox Critical ''Error''
                    # (if callback d then [Callback False] else [])
              \<and> list_all to_storage sent"
proof -
  have ne: "consumed_parts d \<noteq> []"
    using assms by (auto simp: save_and_close_def Let_def split: if_splits)
  obtain w1 r where rp: "record_parts d (consumed_parts d) w = (w1, r)"
    by (cases "record_parts d (consumed_parts d) w")
  from record_parts_keeps [OF rp] obtain sent where
    s: "committed w1 = committed w" "trace w1 = trace w @ sent" "list_all to_storage sent"
    by blast
  obtain w2 b where c: "commit w1 = (w2, b)" by (cases "commit w1")
  have "\<exists>w3 sent'. w' = notify d False (emit (MessageBox Critical ''Error'') (rollback w3))
          \<and> committed w3 = committed w \<and> trace w3 = trace w @ sent' \<and> list_all to_storage sent'"
  proof (cases r)
    case (Some e')
    then have "w' = notify d False (emit (MessageBox Critical ''Error'') (rollback w1))"
      using assms ne rp by (auto simp: save_and_close_def save_failed_def)
    with s show ?thesis by blast
  next
    case None
    have nb: "\<not> b" using assms ne rp None c by (cases b) (auto simp: save_and_close_def)
    have w': "w' = notify d False (emit (MessageBox Critical ''Error'') (rollback w2))"
      using assms ne rp None c nb by (auto simp: save_and_close_def save_failed_def)
    have "committed w2 = committed w" "trace w2 = trace w @ (sent @ [Commit])"
         "list_all to_storage (sent @ [Commit])"
      using commit_keeps [OF c] nb s by (simp_all add: to_storage_simps)
    with w' show ?thesis by blast
  qed
  then obtain w3 sent' where
    w': "w' = notify d False (emit (MessageBox Critical ''Error'') (rollback w3))"
    and k: "committed w3 = committed w" "trace w3 = trace w @ sent'" "list_all to_storage sent'"
    by blast
  show "committed w' = committed w" by (simp add: w' notify_keeps emit_simps rollback_keeps k)
  show "pending w' = committed w" by (simp add: w' notify_keeps emit_simps rollback_keeps k)
  have "trace w' = trace w @ sent' @ Rollback # MessageBox Critical ''Error''
                    # (if callback d then [Callback False] else [])"
    by (simp add: w' notify_keeps emit_simps rollback_keeps k)
  with k show "\<exists>sent. trace w' = trace w @ sent @ Rollback # MessageBox Critical ''Error''
                    # (if callback d then [Callback False] else [])
              \<and> list_all to_storage sent" by blast
qed

lemma save_without_parts:
  assumes "save_and_close d answer w = (out, w')" and "out = Declined \<or> out = ClosedWithoutParts"
  shows "committed w' = committed w \<and> pending w' = pending w"
proof -
  have e: "consumed_parts d = []"
  proof (rule ccontr)
    assume "consumed_parts d \<noteq> []"
    then show False using assms
      by (auto simp: save_and_close_def save_failed_def split: prod.splits option.splits bool.splits)
  qed
  show ?thesis using assms(1) e
    by (auto simp: save_and_close_def Let_def notify_keeps emit_simps split: if_splits)
qed

text \<open>
  Claim C2. \<open>save_and_close\<close> is all-or-nothing. When it fails, on whichever statement
  of whichever part or on the commit, the stored state is what it was before, the open
  transaction holds nothing, and the rollback precedes the error box and the callback
  with False. When it succeeds the stored state is the old one with every part of the
  list recorded. Without parts nothing changes. The checks made when a part is added
  touch neither the stored state nor the transaction.
\<close>

theorem save_is_all_or_nothing:
  assumes "save_and_close d answer w = (out, w')"
  shows "(\<forall>e. out = Failed e \<longrightarrow>
            committed w' = committed w \<and> pending w' = committed w
            \<and> (\<exists>sent. trace w' = trace w @ sent @ Rollback # MessageBox Critical ''Error''
                          # (if callback d then [Callback False] else [])
                    \<and> list_all to_storage sent))
       \<and> (\<forall>n. out = Recorded n \<longrightarrow>
            n = length (consumed_parts d)
            \<and> committed w' = recorded d (consumed_parts d) (pending w)
            \<and> pending w' = committed w')
       \<and> (out = Declined \<or> out = ClosedWithoutParts \<longrightarrow>
            committed w' = committed w \<and> pending w' = pending w)
       \<and> (\<exists>d' boxes. do_action act (d, w) = (d', w\<lparr>trace := trace w @ boxes\<rparr>)
             \<and> list_all (\<lambda>e. \<not> to_storage e) boxes)"
  using assms save_failed_rolled_back [of d answer w _ w'] save_recorded(1,2,3) [of d answer w _ w']
        save_without_parts [of d answer w out w'] do_action_no_storage [of act d w]
  by blast

lemma dialog_B_eq:
  "dialog_B = \<lparr>cm_number = ''CM-001'', technician_name = ''J.Smith'', callback = True,
      consumed_parts =
        [\<lparr>cp_part_number = ''BRG-100'', cp_description = ''Bearing'', cp_quantity = Number 3\<rparr>,
         \<lparr>cp_part_number = ''SEAL-7'', cp_description = ''Bearing'', cp_quantity = Number 2\<rparr>],
      all_parts_data = [brg_100,
         \<lparr>row_part_number = ''SEAL-7'', row_name = ''Bearing'', row_location = ''A1'',
          row_quantity_in_stock = Some (Number 5)\<rparr>]\<rparr>"
  by (simp add: dialog_B_def do_actions_def init_dialog_def load_parts_data_def query_def
        send_def emit_def scenario_B_def connect_def stock_db_def part_def
        select_active_parts_def brg_100_def selected_def add_consumed_part_def Let_def)

lemma failing_save:
  "fst (save_and_close dialog_B Yes failing_storage) = Failed StorageError"
  by (simp add: dialog_B_eq save_and_close_def save_failed_def query_def statement_def
        send_def emit_def failing_storage_def scenario_B_def connect_def stock_db_def part_def
        select_unit_price_def insert_stock_transaction_def insert_cm_parts_used_def
        update_inventory_quantity_def has_part_def decrement_def f_sub_def
        unit_price_of_def Let_def)

theorem save_is_all_or_nothing_witness:
  "\<exists>w'. save_and_close dialog_B Yes failing_storage = (Failed StorageError, w')
      \<and> committed w' = committed failing_storage \<and> pending w' = committed failing_storage
      \<and> mro_stock_transactions (committed w') = [] \<and> cm_parts_used (committed w') = []
      \<and> map inv_quantity_in_stock (mro_inventory (committed w'))
          = [Some (Number 10), Some (Number 5)]
      \<and> drop 7 (trace w') = [Rollback, MessageBox Critical ''Error'', Callback False]"
proof -
  obtain w' where s: "save_and_close dialog_B Yes failing_storage = (Failed StorageError, w')"
    using failing_save by (cases "save_and_close dialog_B Yes failing_storage") simp
  have db: "mro_stock_transactions (committed failing_storage) = []"
    "cm_parts_used (committed failing_storage) = []"
    "map inv_quantity_in_stock (mro_inventory (committed failing_storage))
       = [Some (Number 10), Some (Number 5)]"
    by (simp_all add: failing_storage_def scenario_B_def connect_def stock_db_def part_def)
  have t: "drop 7 (trace w') = [Rollback, MessageBox Critical ''Error'', Callback False]"
    using s
    by (auto simp: dialog_B_eq save_and_close_def save_failed_def query_def statement_def
        send_def emit_def failing_storage_def scenario_B_def connect_def stock_db_def part_def
        select_unit_price_def insert_stock_transaction_def insert_cm_parts_used_def
        update_inventory_quantity_def has_part_def decrement_def f_sub_def
        unit_price_of_def Let_def notify_def rollback_def)
  from save_is_all_or_nothing [OF s] have
    "committed w' = committed failing_storage \<and> pending w' = committed failing_storage"
    by simp
  with s db t show ?thesis by simp
qed






lemma recorded_one:
  "mro_stock_transactions (recorded d [p] db) = mro_stock_transactions db @ [issue_of d p]"
  "mro_inventory (recorded d [p] db)
     = map (decrement (cp_part_number p) (cp_quantity p)) (mro_inventory db)"
  by simp_all








































end
